theory Spec2Isabelle
  imports Complex_Main
begin

section \<open>Data model\<close>

text \<open>
  The repository holds two variants of \<^verbatim>\<open>index.js\<close>. Both share \<^verbatim>\<open>applyAuth\<close> and
  \<^verbatim>\<open>prepareHeaders\<close> word for word; they differ in \<^verbatim>\<open>executeRequest\<close> and in
  \<^verbatim>\<open>runConcurrentRequests\<close>. Definitions that exist twice carry the suffix \<open>1\<close> (first
  variant, lines 1-228) or \<open>2\<close> (second variant, lines 229-537).

  Strings are byte strings. A JavaScript value that may be \<^verbatim>\<open>undefined\<close> or \<^verbatim>\<open>null\<close> is
  an \<open>option\<close>. A header object is a finite map from property names to strings; property
  names that JavaScript treats specially on plain objects (\<^verbatim>\<open>__proto__\<close>) and values of
  \<^verbatim>\<open>auth.type\<close> that name a member inherited from \<^verbatim>\<open>Object.prototype\<close> are outside this
  model.
\<close>

type_synonym headers = "string \<rightharpoonup> string"

type_synonym json = string

text \<open>One element of the arrays \<^verbatim>\<open>auth.apikey\<close> and \<^verbatim>\<open>auth.bearer\<close>: \<^verbatim>\<open>{ key, value }\<close>.\<close>

record entry =
  key :: string
  val :: "string option"

text \<open>The object \<^verbatim>\<open>auth.basic\<close>, read by \<^verbatim>\<open>const { username, password } = basic\<close>.\<close>

record credentials =
  username :: "string option"
  password :: "string option"

text \<open>The auth object: \<^verbatim>\<open>auth.type\<close> and the member the handler of that type reads.\<close>

record auth =
  type :: string
  apikey :: "entry list option"
  bearer :: "entry list option"
  basic :: "credentials option"

text \<open>
  A parsed request, as \<^verbatim>\<open>parseCollection\<close> pushes it; \<open>http_method\<close> is its member
  \<^verbatim>\<open>method\<close>.
\<close>

record request =
  name :: string
  http_method :: string
  url :: string
  headers :: "(string \<times> string) list"
  body :: "string option"
  auth :: "auth option"

text \<open>The transport's answer \<^verbatim>\<open>response\<close>: \<^verbatim>\<open>response.data\<close>, \<^verbatim>\<open>response.status\<close>.\<close>

record response =
  rdata :: json
  rstatus :: nat

text \<open>
  A thrown value. A \<^verbatim>\<open>TypeError\<close> raised while the headers are prepared has a message
  only; an error of the transport may carry \<^verbatim>\<open>status\<close>, \<^verbatim>\<open>response\<close> and \<^verbatim>\<open>code\<close>.
\<close>

record js_error =
  message :: string
  status :: "nat option"
  eresponse :: "response option"
  code :: "string option"

definition TypeError :: "string \<Rightarrow> js_error" where
  "TypeError m = \<lparr>message = m, status = None, eresponse = None, code = None\<rparr>"

text \<open>The argument of the \<^verbatim>\<open>axios\<close> call.\<close>

record config =
  cmethod :: string
  curl :: string
  cheaders :: headers
  cdata :: "string option"

section \<open>String helpers of the platform\<close>

text \<open>\<^verbatim>\<open>String.prototype.toLowerCase\<close> on the ASCII letters.\<close>

definition toLowerCase :: "string \<Rightarrow> string" where
  "toLowerCase s =
     map (\<lambda>c. if 65 \<le> (of_char c :: nat) \<and> (of_char c :: nat) \<le> 90
               then char_of (of_char c + 32 :: nat) else c) s"

text \<open>A template literal prints an absent value as \<^verbatim>\<open>undefined\<close>.\<close>

definition template :: "string option \<Rightarrow> string" where
  "template v = (case v of None \<Rightarrow> ''undefined'' | Some s \<Rightarrow> s)"

definition b64chars :: string where
  "b64chars = ''ABCDEFGHIJKLMNOPQRSTUVWXYZabcdefghijklmnopqrstuvwxyz0123456789+/''"

text \<open>\<^verbatim>\<open>Buffer.from(s).toString('base64')\<close> on the bytes of \<open>s\<close>.\<close>

fun base64_bytes :: "nat list \<Rightarrow> string" where
  "base64_bytes (a # b # c # rest) =
     (let n = a * 65536 + b * 256 + c
      in b64chars ! (n div 262144) # b64chars ! (n div 4096 mod 64) #
         b64chars ! (n div 64 mod 64) # b64chars ! (n mod 64) # base64_bytes rest)"
| "base64_bytes [a, b] =
     (let n = a * 65536 + b * 256
      in [b64chars ! (n div 262144), b64chars ! (n div 4096 mod 64),
          b64chars ! (n div 64 mod 64), CHR ''=''])"
| "base64_bytes [a] =
     (let n = a * 65536
      in [b64chars ! (n div 262144), b64chars ! (n div 4096 mod 64), CHR ''='', CHR ''=''])"
| "base64_bytes [] = []"

definition base64 :: "string \<Rightarrow> string" where
  "base64 s = base64_bytes (map of_char s)"

section \<open>applyAuth and prepareHeaders (both variants)\<close>

text \<open>\<^verbatim>\<open>apikey.find((entry) => entry.key === k)?.value\<close>.\<close>

definition find_value :: "entry list \<Rightarrow> string \<Rightarrow> string option" where
  "find_value es k = (case find (\<lambda>e. key e = k) es of None \<Rightarrow> None | Some e \<Rightarrow> val e)"

text \<open>Truthiness of a value that is a string or \<^verbatim>\<open>undefined\<close>.\<close>

definition truthy :: "string option \<Rightarrow> bool" where
  "truthy v = (case v of None \<Rightarrow> False | Some s \<Rightarrow> s \<noteq> [])"

text \<open>
  The three handlers of \<^verbatim>\<open>authHandlers\<close>. Each returns the header object it has written
  to together with the \<^verbatim>\<open>console.warn\<close> lines it printed, or the \<^verbatim>\<open>TypeError\<close> it threw.
  A handler throws before it writes, so a thrown error leaves the header object as it was.
\<close>

definition apikey_handler :: "headers \<Rightarrow> auth \<Rightarrow> js_error + headers \<times> string list" where
  "apikey_handler h a =
     (case apikey a of
        None \<Rightarrow> Inl (TypeError ''Cannot read properties of undefined (reading 'find')'')
      | Some es \<Rightarrow>
          (let keyField = find_value es ''key'';
               valueField = find_value es ''value'';
               inField = find_value es ''in''
           in if truthy keyField \<and> truthy valueField \<and> inField = Some ''header''
              then Inr (h(the keyField \<mapsto> the valueField), [])
              else Inr (h, [''Unsupported or missing API key configuration.''])))"

definition bearer_handler :: "headers \<Rightarrow> auth \<Rightarrow> js_error + headers \<times> string list" where
  "bearer_handler h a =
     (case bearer a of
        None \<Rightarrow> Inl (TypeError ''Cannot read properties of undefined (reading '0')'')
      | Some [] \<Rightarrow> Inl (TypeError ''Cannot read properties of undefined (reading 'value')'')
      | Some (e # _) \<Rightarrow> Inr (h(''Authorization'' \<mapsto> ''Bearer '' @ template (val e)), []))"

definition basic_handler :: "headers \<Rightarrow> auth \<Rightarrow> js_error + headers \<times> string list" where
  "basic_handler h a =
     (case basic a of
        None \<Rightarrow>
          Inl (TypeError ''Cannot destructure property 'username' of 'basic' as it is undefined.'')
      | Some c \<Rightarrow>
          Inr (h(''Authorization'' \<mapsto>
                 ''Basic '' @ base64 (template (username c) @ '':'' @ template (password c))), []))"

definition applyAuth :: "headers \<Rightarrow> auth option \<Rightarrow> js_error + headers \<times> string list" where
  "applyAuth h au =
     (case au of
        None \<Rightarrow> Inr (h, [])
      | Some a \<Rightarrow>
          if type a = ''apikey'' then apikey_handler h a
          else if type a = ''bearer'' then bearer_handler h a
          else if type a = ''basic'' then basic_handler h a
          else Inr (h, [''Unsupported auth type: '' @ type a]))"

text \<open>\<^verbatim>\<open>requestHeaders.reduce((acc, { key, value }) => { acc[key] = value; return acc; }, {})\<close>.\<close>

definition reduce_headers :: "(string \<times> string) list \<Rightarrow> headers" where
  "reduce_headers hs = fold (\<lambda>(k, v) acc. acc(k \<mapsto> v)) hs Map.empty"

text \<open>\<^verbatim>\<open>requestAuth || globalAuth\<close>: an auth object is truthy, \<^verbatim>\<open>null\<close> is not.\<close>

definition or_else :: "'a option \<Rightarrow> 'a option \<Rightarrow> 'a option" where
  "or_else a b = (case a of None \<Rightarrow> b | Some x \<Rightarrow> Some x)"

definition prepareHeaders ::
  "(string \<times> string) list \<Rightarrow> auth option \<Rightarrow> auth option \<Rightarrow> js_error + headers \<times> string list" where
  "prepareHeaders requestHeaders requestAuth globalAuth =
     applyAuth (reduce_headers requestHeaders) (or_else requestAuth globalAuth)"

section \<open>The clock, the transport and promises\<close>

text \<open>
  \<^verbatim>\<open>performance.now()\<close> reads a clock. The clock reading on entry to a function is an
  argument of its model, and the two steps that take time advance it: preparing the headers
  of a request takes \<open>assembling env r\<close> milliseconds, and the transport settles
  \<open>latency env cfg\<close> milliseconds after it was invoked. \<open>axios env cfg\<close> is what the
  transport settles with: a response, or the error it rejects with.
  \<^verbatim>\<open>JSON.stringify(data, null, 2)\<close> is the parameter \<open>stringify\<close>.
\<close>

record env =
  axios :: "config \<Rightarrow> js_error + response"
  latency :: "config \<Rightarrow> rat"
  assembling :: "request \<Rightarrow> rat"
  stringify :: "json \<Rightarrow> string"

text \<open>
  The string \<^verbatim>\<open>`${x.toFixed(2)} ms`\<close> is kept as the number it prints: \<open>Ms q\<close> with
  \<open>q\<close> a multiple of one hundredth. \<^verbatim>\<open>toFixed(2)\<close> rounds to the nearest hundredth, the
  larger one on a tie; \<^verbatim>\<open>parseFloat\<close> reads the number back. Arithmetic on clock readings
  is exact.
\<close>

datatype ms = Ms rat

definition toFixed2 :: "rat \<Rightarrow> rat" where
  "toFixed2 x = of_int \<lfloor>x * 100 + 1 / 2\<rfloor> / 100"

fun parseFloat :: "ms \<Rightarrow> rat" where
  "parseFloat (Ms q) = q"

text \<open>How a promise settles, as \<^verbatim>\<open>Promise.allSettled\<close> reports it, and when.\<close>

datatype 'a settled = Fulfilled 'a | Rejected js_error

record 'a promise =
  settles_at :: rat
  outcome :: "'a settled"

text \<open>\<^verbatim>\<open>request.body || null\<close>.\<close>

definition or_null :: "string option \<Rightarrow> string option" where
  "or_null v = (if truthy v then v else None)"

section \<open>executeRequest, first variant\<close>

text \<open>
  The object \<^verbatim>\<open>executeRequest\<close> returns: \<open>Success1 name data timeTaken\<close> for
  \<^verbatim>\<open>status: 'success'\<close> and \<open>Error1 name error timeTaken\<close> for \<^verbatim>\<open>status: 'error'\<close>.
\<close>

datatype result1 = Success1 string json ms | Error1 string string ms

fun name1 :: "result1 \<Rightarrow> string" where
  "name1 (Success1 n d t) = n"
| "name1 (Error1 n e t) = n"

fun data1 :: "result1 \<Rightarrow> json option" where
  "data1 (Success1 n d t) = Some d"
| "data1 (Error1 n e t) = None"

fun timeTaken1 :: "result1 \<Rightarrow> ms" where
  "timeTaken1 (Success1 n d t) = t"
| "timeTaken1 (Error1 n e t) = t"

definition executeRequest1 :: "env \<Rightarrow> rat \<Rightarrow> request \<Rightarrow> auth option \<Rightarrow> result1 promise" where
  "executeRequest1 env now r globalAuth =
     (let startTime = now
      in case prepareHeaders (headers r) (auth r) globalAuth of
           Inl error \<Rightarrow>
             (let endTime = now + assembling env r
              in \<lparr>settles_at = endTime,
                  outcome = Fulfilled
                    (Error1 (name r) (message error) (Ms (toFixed2 (endTime - startTime))))\<rparr>)
         | Inr (hs, warned) \<Rightarrow>
             (let cfg = \<lparr>cmethod = toLowerCase (http_method r), curl = url r, cheaders = hs,
                         cdata = or_null (body r)\<rparr>;
                  endTime = now + assembling env r + latency env cfg
              in case axios env cfg of
                   Inr response \<Rightarrow>
                     \<lparr>settles_at = endTime,
                      outcome = Fulfilled
                        (Success1 (name r) (rdata response) (Ms (toFixed2 (endTime - startTime))))\<rparr>
                 | Inl error \<Rightarrow>
                     \<lparr>settles_at = endTime,
                      outcome = Fulfilled
                        (Error1 (name r) (message error) (Ms (toFixed2 (endTime - startTime))))\<rparr>))"

section \<open>executeRequest, second variant\<close>

definition COMMON_HEADERS :: headers where
  "COMMON_HEADERS =
     [''Content-Type'' \<mapsto> ''application/json'',
      ''Accept'' \<mapsto> ''*/*'',
      ''Cache-Control'' \<mapsto> ''no-cache'',
      ''Accept-Encoding'' \<mapsto> ''gzip, deflate, br'',
      ''Connection'' \<mapsto> ''keep-alive'']"

text \<open>A \<^verbatim>\<open>statusCode\<close> is a number (\<^verbatim>\<open>status\<close>) or a string (\<^verbatim>\<open>error.code\<close>).\<close>

datatype scode = Num nat | Str string

text \<open>
  \<open>Success2 name data statusCode timeTaken\<close> and \<open>Error2 name error statusCode data\<close>:
  the object of the \<^verbatim>\<open>catch\<close> branch has no \<^verbatim>\<open>timeTaken\<close>.
\<close>

datatype result2 = Success2 string json nat ms | Error2 string string "scode option" "json option"

fun name2 :: "result2 \<Rightarrow> string" where
  "name2 (Success2 n d c t) = n"
| "name2 (Error2 n e c d) = n"

fun timeTaken2 :: "result2 \<Rightarrow> ms option" where
  "timeTaken2 (Success2 n d c t) = Some t"
| "timeTaken2 (Error2 n e c d) = None"

text \<open>\<^verbatim>\<open>error?.status || error?.response?.status || error?.code\<close>: the number 0 is falsy.\<close>

definition error_statusCode :: "js_error \<Rightarrow> scode option" where
  "error_statusCode e =
     (if status e \<noteq> None \<and> status e \<noteq> Some 0 then map_option Num (status e)
      else if eresponse e \<noteq> None \<and> map_option rstatus (eresponse e) \<noteq> Some 0
           then map_option (Num \<circ> rstatus) (eresponse e)
      else map_option Str (code e))"

definition executeRequest2 :: "env \<Rightarrow> rat \<Rightarrow> request \<Rightarrow> auth option \<Rightarrow> result2 promise" where
  "executeRequest2 env now r globalAuth =
     (let startTime = now
      in case prepareHeaders (headers r) (auth r) globalAuth of
           Inl error \<Rightarrow>
             \<lparr>settles_at = now + assembling env r,
              outcome = Fulfilled
                (Error2 (name r) (message error) (error_statusCode error)
                   (map_option rdata (eresponse error)))\<rparr>
         | Inr (hs, warned) \<Rightarrow>
             (let cfg = \<lparr>cmethod = toLowerCase (http_method r), curl = url r,
                         cheaders = COMMON_HEADERS ++ hs, cdata = or_null (body r)\<rparr>
              in case axios env cfg of
                   Inr response \<Rightarrow>
                     (let endTime = now + assembling env r + latency env cfg
                      in \<lparr>settles_at = endTime,
                          outcome = Fulfilled
                            (Success2 (name r) (rdata response) (rstatus response)
                               (Ms (toFixed2 (endTime - startTime))))\<rparr>)
                 | Inl error \<Rightarrow>
                     \<lparr>settles_at = now + assembling env r + latency env cfg,
                      outcome = Fulfilled
                        (Error2 (name r) (message error) (error_statusCode error)
                           (map_option rdata (eresponse error)))\<rparr>))"

section \<open>The batch: dispatch and join\<close>

text \<open>
  \<^verbatim>\<open>requests.map((request) => executeRequest(request, globalAuth))\<close>. Each call runs up
  to its \<^verbatim>\<open>await\<close> before the next one starts, so a request is entered once the headers
  of the requests before it have been prepared.
\<close>

fun dispatch ::
  "(rat \<Rightarrow> request \<Rightarrow> auth option \<Rightarrow> 'a promise) \<Rightarrow> (request \<Rightarrow> rat) \<Rightarrow> auth option \<Rightarrow>
   rat \<Rightarrow> request list \<Rightarrow> 'a promise list" where
  "dispatch exec cost globalAuth now [] = []"
| "dispatch exec cost globalAuth now (r # rs) =
     exec now r globalAuth # dispatch exec cost globalAuth (now + cost r) rs"

text \<open>
  \<^verbatim>\<open>Promise.allSettled\<close> keeps one slot for each promise, in the order of its argument.
  The promises settle in the order \<open>completion\<close>, a list of positions chosen by the
  scheduler and the network; the promise at position \<open>i\<close> writes slot \<open>i\<close> when it settles.
  The joined promise resolves once every slot is written; \<open>None\<close> says that it never does.
\<close>

definition settle :: "'a promise list \<Rightarrow> nat \<Rightarrow> 'a settled option list \<Rightarrow> 'a settled option list" where
  "settle ps i slots = (if i < length slots then slots[i := Some (outcome (ps ! i))] else slots)"

definition allSettled :: "nat list \<Rightarrow> 'a promise list \<Rightarrow> 'a settled list option" where
  "allSettled completion ps = those (fold (settle ps) completion (replicate (length ps) None))"

text \<open>The clock when the \<^verbatim>\<open>await\<close> resumes: the last promise has settled.\<close>

definition resumes_at :: "rat \<Rightarrow> 'a promise list \<Rightarrow> rat" where
  "resumes_at dispatched ps = fold max (map settles_at ps) dispatched"

text \<open>What a call of an \<^verbatim>\<open>async\<close> function comes to.\<close>

datatype 'a run = Pending | Threw js_error | Returned 'a

section \<open>runConcurrentRequests, first variant\<close>

text \<open>The arguments of one call of \<^verbatim>\<open>logRequestResult(status, name, timeTaken, data)\<close>.\<close>

record logged1 =
  status1 :: string
  logname1 :: string
  time1 :: "ms option"
  text1 :: "string option"

text \<open>The counters of the loop and the calls of \<^verbatim>\<open>logRequestResult\<close> made so far.\<close>

record tally1 =
  succ1 :: nat
  fail1 :: nat
  total1 :: rat
  calls1 :: "logged1 list"

text \<open>
  The body of \<^verbatim>\<open>results.forEach((result, index) => ...)\<close> with \<open>rq = requests[index]\<close>.
  The members \<^verbatim>\<open>timeTaken\<close> and \<^verbatim>\<open>error\<close> of a rejection reason are \<^verbatim>\<open>undefined\<close>.
\<close>

definition each1 :: "env \<Rightarrow> tally1 \<Rightarrow> result1 settled \<Rightarrow> request \<Rightarrow> tally1" where
  "each1 env s result rq =
     (case result of
        Fulfilled v \<Rightarrow>
          s\<lparr>succ1 := succ1 s + 1,
            total1 := total1 s + parseFloat (timeTaken1 v),
            calls1 := calls1 s @
              [\<lparr>status1 = ''success'', logname1 = name rq, time1 = Some (timeTaken1 v),
                text1 = map_option (stringify env) (data1 v)\<rparr>]\<rparr>
      | Rejected reason \<Rightarrow>
          s\<lparr>fail1 := fail1 s + 1,
            calls1 := calls1 s @
              [\<lparr>status1 = ''error'', logname1 = name rq, time1 = None, text1 = None\<rparr>]\<rparr>)"

fun forEach1 :: "env \<Rightarrow> tally1 \<Rightarrow> (result1 settled \<times> request) list \<Rightarrow> tally1" where
  "forEach1 env s [] = s"
| "forEach1 env s ((result, rq) # rest) = forEach1 env (each1 env s result rq) rest"

text \<open>
  What a run prints: the calls of \<^verbatim>\<open>logRequestResult\<close> in order, and the arguments of
  \<^verbatim>\<open>logSummaryReport(totalRequests, successCount, failureCount, totalTime, avgTime)\<close>.
\<close>

record 'l report =
  results :: "'l list"
  totalRequests :: nat
  successCount :: nat
  failureCount :: nat
  totalTime :: rat
  avgTime :: rat

definition runConcurrentRequests1 ::
  "env \<Rightarrow> nat list \<Rightarrow> rat \<Rightarrow> request list \<Rightarrow> auth option \<Rightarrow> logged1 report run" where
  "runConcurrentRequests1 env completion now requests globalAuth =
     (let startTime = now;
          requestPromises = dispatch (executeRequest1 env) (assembling env) globalAuth now requests
      in case allSettled completion requestPromises of
           None \<Rightarrow> Pending
         | Some settled \<Rightarrow>
             (let endTime = resumes_at (now + sum_list (map (assembling env) requests))
                              requestPromises;
                  s = forEach1 env \<lparr>succ1 = 0, fail1 = 0, total1 = 0, calls1 = []\<rparr>
                        (zip settled requests);
                  avg = (if succ1 s > 0 then total1 s / of_nat (succ1 s) else 0)
              in Returned
                   \<lparr>results = calls1 s, totalRequests = length requests, successCount = succ1 s,
                    failureCount = fail1 s, totalTime = endTime - startTime, avgTime = avg\<rparr>))"

section \<open>runConcurrentRequests, second variant\<close>

text \<open>One element of \<^verbatim>\<open>responseSummary\<close>.\<close>

record logged2 =
  status2 :: string
  statusCode2 :: "scode option"
  logname2 :: string
  time2 :: "ms option"
  text2 :: "string option"

record tally2 =
  succ2 :: nat
  fail2 :: nat
  total2 :: rat
  calls2 :: "logged2 list"

text \<open>The body of the loop for a fulfilled promise; \<open>v\<close> is \<^verbatim>\<open>result.value\<close>.\<close>

definition each2 :: "env \<Rightarrow> tally2 \<Rightarrow> result2 \<Rightarrow> request \<Rightarrow> tally2" where
  "each2 env s v rq =
     (case v of
        Success2 n d c t \<Rightarrow>
          s\<lparr>succ2 := succ2 s + 1,
            total2 := total2 s + parseFloat t,
            calls2 := calls2 s @
              [\<lparr>status2 = ''success'', statusCode2 = Some (Num c), logname2 = name rq,
                time2 = Some t, text2 = Some (stringify env d)\<rparr>]\<rparr>
      | Error2 n e c d \<Rightarrow>
          s\<lparr>fail2 := fail2 s + 1,
            calls2 := calls2 s @
              [\<lparr>status2 = ''error'', statusCode2 = c, logname2 = name rq,
                time2 = None, text2 = map_option (stringify env) d\<rparr>]\<rparr>)"

text \<open>
  The loop reads \<^verbatim>\<open>result.value.status\<close>: on a rejected promise \<^verbatim>\<open>result.value\<close> is
  \<^verbatim>\<open>undefined\<close> and the read throws.
\<close>

fun forEach2 :: "env \<Rightarrow> tally2 \<Rightarrow> (result2 settled \<times> request) list \<Rightarrow> js_error + tally2" where
  "forEach2 env s [] = Inr s"
| "forEach2 env s ((result, rq) # rest) =
     (case result of
        Rejected reason \<Rightarrow>
          Inl (TypeError ''Cannot read properties of undefined (reading 'status')'')
      | Fulfilled v \<Rightarrow> forEach2 env (each2 env s v rq) rest)"

definition runConcurrentRequests2 ::
  "env \<Rightarrow> nat list \<Rightarrow> rat \<Rightarrow> request list \<Rightarrow> auth option \<Rightarrow> logged2 report run" where
  "runConcurrentRequests2 env completion now requests globalAuth =
     (let startTime = now;
          requestPromises = dispatch (executeRequest2 env) (assembling env) globalAuth now requests
      in case allSettled completion requestPromises of
           None \<Rightarrow> Pending
         | Some settled \<Rightarrow>
             (let endTime = resumes_at (now + sum_list (map (assembling env) requests))
                              requestPromises
              in case forEach2 env \<lparr>succ2 = 0, fail2 = 0, total2 = 0, calls2 = []\<rparr>
                        (zip settled requests) of
                   Inl error \<Rightarrow> Threw error
                 | Inr s \<Rightarrow>
                     (let avg = (if succ2 s > 0 then total2 s / of_nat (succ2 s) else 0)
                      in Returned
                           \<lparr>results = calls2 s, totalRequests = length requests,
                            successCount = succ2 s, failureCount = fail2 s,
                            totalTime = endTime - startTime, avgTime = avg\<rparr>)))"

section \<open>The spec's average, and example inputs\<close>

text \<open>
  The spec's \<^verbatim>\<open>averageSuccessMillis\<close>, in its own words: the mean of the elapsed times of
  the successful results only, and 0 when there is none.
\<close>

definition success_times :: "logged2 list \<Rightarrow> rat list" where
  "success_times ls =
     concat (map (\<lambda>l. if status2 l = ''success''
                        then (case time2 l of Some t \<Rightarrow> [parseFloat t] | None \<Rightarrow> [])
                        else []) ls)"

definition spec_averageSuccessMillis :: "logged2 list \<Rightarrow> rat" where
  "spec_averageSuccessMillis ls =
     (if success_times ls = [] then 0
      else sum_list (success_times ls) / of_nat (length (success_times ls)))"

definition fulfilled :: "'a settled \<Rightarrow> bool" where
  "fulfilled x = (case x of Fulfilled v \<Rightarrow> True | Rejected e \<Rightarrow> False)"

text \<open>
  A transport that rejects every request to \<^verbatim>\<open>http://b\<close> with a network error and answers
  every other request; preparing headers takes one millisecond.
\<close>

definition network_error :: js_error where
  "network_error =
     \<lparr>message = ''Network Error'', status = None, eresponse = None, code = Some ''ERR_NETWORK''\<rparr>"

definition example_env :: env where
  "example_env =
     \<lparr>axios = (\<lambda>cfg. if curl cfg = ''http://b'' then Inl network_error
                      else Inr \<lparr>rdata = ''ok'', rstatus = 200\<rparr>),
      latency = (\<lambda>cfg. if curl cfg = ''http://a'' then 30
                        else if curl cfg = ''http://b'' then 10 else 20),
      assembling = (\<lambda>r. 1),
      stringify = (\<lambda>d. d)\<rparr>"

definition plain :: "string \<Rightarrow> string \<Rightarrow> request" where
  "plain n u = \<lparr>name = n, http_method = ''GET'', url = u, headers = [], body = None, auth = None\<rparr>"

definition mixed_batch :: "request list" where
  "mixed_batch =
     [plain ''Request 1'' ''http://a'', plain ''Request 2'' ''http://b'',
      plain ''Request 3'' ''http://c'']"

definition apikey_auth :: "entry list \<Rightarrow> auth" where
  "apikey_auth es = \<lparr>type = ''apikey'', apikey = Some es, bearer = None, basic = None\<rparr>"

definition bearer_auth :: "entry list option \<Rightarrow> auth" where
  "bearer_auth es = \<lparr>type = ''bearer'', apikey = None, bearer = es, basic = None\<rparr>"

text \<open>An API key whose value is the empty string, and one with a value.\<close>

definition empty_value_key :: "entry list" where
  "empty_value_key =
     [\<lparr>key = ''key'', val = Some ''X-Api-Key''\<rparr>, \<lparr>key = ''value'', val = Some []\<rparr>,
      \<lparr>key = ''in'', val = Some ''header''\<rparr>]"

definition header_key :: "entry list" where
  "header_key =
     [\<lparr>key = ''key'', val = Some ''X-Api-Key''\<rparr>, \<lparr>key = ''value'', val = Some ''s3cret''\<rparr>,
      \<lparr>key = ''in'', val = Some ''header''\<rparr>]"

text \<open>A bearer entry without a \<^verbatim>\<open>value\<close>.\<close>

definition valueless_token :: auth where
  "valueless_token = bearer_auth (Some [\<lparr>key = ''token'', val = None\<rparr>])"

definition token_abc :: auth where
  "token_abc = bearer_auth (Some [\<lparr>key = ''token'', val = Some ''abc''\<rparr>])"

definition basic_up :: auth where
  "basic_up =
     \<lparr>type = ''basic'', apikey = None, bearer = None,
      basic = Some \<lparr>username = Some ''u'', password = Some ''p''\<rparr>\<rparr>"

definition accept_text :: headers where
  "accept_text = [''Accept'' \<mapsto> ''text/plain'']"

section \<open>Auxiliary facts\<close>

lemma base64_example: "base64 ''u:p'' = ''dTpw''"
  by (simp add: base64_def b64chars_def)

lemma length_dispatch: "length (dispatch exec cost ga t rs) = length rs"
  by (induction rs arbitrary: t) simp_all

lemma length_fold_settle: "length (fold (settle ps) order slots) = length slots"
  by (induction order arbitrary: slots) (simp_all add: settle_def)

lemma nth_fold_settle:
  "i < length slots \<Longrightarrow>
   fold (settle ps) order slots ! i = (if i \<in> set order then Some (outcome (ps ! i)) else slots ! i)"
proof (induction order arbitrary: slots)
  case Nil
  then show ?case by simp
next
  case (Cons j order)
  have len: "i < length (settle ps j slots)"
    using Cons.prems by (simp add: settle_def)
  have step: "settle ps j slots ! i = (if i = j then Some (outcome (ps ! i)) else slots ! i)"
    using Cons.prems by (simp add: settle_def)
  show ?case
    using Cons.IH [OF len] step by (cases "i = j") auto
qed

lemma those_map_Some: "those (map Some xs) = Some xs"
  by (induction xs) simp_all

text \<open>Whatever the order of completion, the join holds the outcomes in the order of dispatch.\<close>

lemma allSettled_all:
  assumes "set completion = {0..<length ps}"
  shows "allSettled completion ps = Some (map outcome ps)"
proof -
  let ?slots = "fold (settle ps) completion (replicate (length ps) None)"
  have "?slots = map Some (map outcome ps)"
  proof (rule nth_equalityI)
    show "length ?slots = length (map Some (map outcome ps))"
      by (simp add: length_fold_settle)
  next
    fix i assume "i < length ?slots"
    then have i: "i < length ps" by (simp add: length_fold_settle)
    then show "?slots ! i = map Some (map outcome ps) ! i"
      using assms by (simp add: nth_fold_settle)
  qed
  then show ?thesis unfolding allSettled_def by (simp only: those_map_Some)
qed

lemma executeRequest1_fulfilled:
  "\<exists>v. outcome (executeRequest1 env now r ga) = Fulfilled v \<and> name1 v = name r"
  by (simp add: executeRequest1_def Let_def split: sum.split prod.split)

lemma executeRequest2_fulfilled:
  "\<exists>v. outcome (executeRequest2 env now r ga) = Fulfilled v \<and> name2 v = name r"
  by (simp add: executeRequest2_def Let_def split: sum.split prod.split)

text \<open>The object a request comes to does not depend on when the request was entered.\<close>

lemma executeRequest1_clock:
  "outcome (executeRequest1 env now r ga) = outcome (executeRequest1 env 0 r ga)"
  by (simp add: executeRequest1_def Let_def split: sum.split prod.split)

lemma executeRequest2_clock:
  "outcome (executeRequest2 env now r ga) = outcome (executeRequest2 env 0 r ga)"
  by (simp add: executeRequest2_def Let_def split: sum.split prod.split)

lemma dispatch1_values:
  "\<exists>vs. map outcome (dispatch (executeRequest1 env) cost ga now rs) = map Fulfilled vs \<and>
        map name1 vs = map name rs"
proof (induction rs arbitrary: now)
  case Nil
  then show ?case by simp
next
  case (Cons r rs)
  obtain v where v: "outcome (executeRequest1 env now r ga) = Fulfilled v" "name1 v = name r"
    using executeRequest1_fulfilled by blast
  obtain vs where vs:
    "map outcome (dispatch (executeRequest1 env) cost ga (now + cost r) rs) = map Fulfilled vs"
    "map name1 vs = map name rs"
    using Cons.IH by blast
  have "map outcome (dispatch (executeRequest1 env) cost ga now (r # rs)) = map Fulfilled (v # vs)"
    using v vs by simp
  moreover have "map name1 (v # vs) = map name (r # rs)"
    using v vs by simp
  ultimately show ?case by blast
qed

lemma dispatch2_values:
  "\<exists>vs. map outcome (dispatch (executeRequest2 env) cost ga now rs) = map Fulfilled vs \<and>
        map name2 vs = map name rs"
proof (induction rs arbitrary: now)
  case Nil
  then show ?case by simp
next
  case (Cons r rs)
  obtain v where v: "outcome (executeRequest2 env now r ga) = Fulfilled v" "name2 v = name r"
    using executeRequest2_fulfilled by blast
  obtain vs where vs:
    "map outcome (dispatch (executeRequest2 env) cost ga (now + cost r) rs) = map Fulfilled vs"
    "map name2 vs = map name rs"
    using Cons.IH by blast
  have "map outcome (dispatch (executeRequest2 env) cost ga now (r # rs)) = map Fulfilled (v # vs)"
    using v vs by simp
  moreover have "map name2 (v # vs) = map name (r # rs)"
    using v vs by simp
  ultimately show ?case by blast
qed

lemma forEach1_counts:
  "succ1 (forEach1 env s xs) + fail1 (forEach1 env s xs) = succ1 s + fail1 s + length xs"
  by (induction env s xs rule: forEach1.induct) (simp_all add: each1_def split: settled.split)

lemma forEach1_length:
  "length (calls1 (forEach1 env s xs)) = length (calls1 s) + length xs"
  by (induction env s xs rule: forEach1.induct) (simp_all add: each1_def split: settled.split)

lemma forEach1_names:
  "map logname1 (calls1 (forEach1 env s xs)) = map logname1 (calls1 s) @ map (name \<circ> snd) xs"
  by (induction env s xs rule: forEach1.induct) (simp_all add: each1_def split: settled.split)

lemma forEach2_returns:
  "list_all (fulfilled \<circ> fst) xs \<Longrightarrow> \<exists>s'. forEach2 env s xs = Inr s'"
  by (induction env s xs rule: forEach2.induct) (auto simp add: fulfilled_def split: settled.splits)

lemma forEach2_counts:
  "forEach2 env s xs = Inr s' \<Longrightarrow> succ2 s' + fail2 s' = succ2 s + fail2 s + length xs"
  by (induction env s xs arbitrary: s' rule: forEach2.induct)
     (auto simp add: each2_def split: settled.splits result2.splits)

lemma forEach2_length:
  "forEach2 env s xs = Inr s' \<Longrightarrow> length (calls2 s') = length (calls2 s) + length xs"
  by (induction env s xs arbitrary: s' rule: forEach2.induct)
     (auto simp add: each2_def split: settled.splits result2.splits)

lemma forEach2_names:
  "forEach2 env s xs = Inr s' \<Longrightarrow>
   map logname2 (calls2 s') = map logname2 (calls2 s) @ map (name \<circ> snd) xs"
  by (induction env s xs arbitrary: s' rule: forEach2.induct)
     (auto simp add: each2_def split: settled.splits result2.splits)

lemma success_times_append:
  "success_times (ls @ ms) = success_times ls @ success_times ms"
  by (simp add: success_times_def)

lemma forEach2_success_times:
  "forEach2 env s xs = Inr s' \<Longrightarrow>
   total2 s = sum_list (success_times (calls2 s)) \<and> succ2 s = length (success_times (calls2 s)) \<Longrightarrow>
   total2 s' = sum_list (success_times (calls2 s')) \<and> succ2 s' = length (success_times (calls2 s'))"
proof (induction env s xs arbitrary: s' rule: forEach2.induct)
  case (1 env s)
  then show ?case by simp
next
  case (2 env s result rq rest)
  from "2.prems"(1) obtain v where v: "result = Fulfilled v"
    by (cases result) simp_all
  have run: "forEach2 env (each2 env s v rq) rest = Inr s'"
    using "2.prems"(1) v by simp
  have inv: "total2 (each2 env s v rq) = sum_list (success_times (calls2 (each2 env s v rq))) \<and>
             succ2 (each2 env s v rq) = length (success_times (calls2 (each2 env s v rq)))"
    using "2.prems"(2)
    by (cases v) (simp_all add: each2_def success_times_append, simp_all add: success_times_def)
  show ?case
    using "2.IH" [OF v run inv] .
qed

lemma zip_fulfilled: "list_all (fulfilled \<circ> fst) (zip (map Fulfilled vs) rs)"
proof (induction vs arbitrary: rs)
  case Nil
  then show ?case by simp
next
  case (Cons v vs)
  then show ?case by (cases rs) (simp_all add: fulfilled_def)
qed

lemma map_snd_zip_values:
  "length vs = length rs \<Longrightarrow> map (f \<circ> snd) (zip (map g vs) rs) = map f rs"
  by (induction vs rs rule: list_induct2) simp_all

text \<open>Both variants come back from the join and the loop, with one line for each request.\<close>

lemma runConcurrentRequests1_returns:
  assumes "set completion = {0..<length requests}"
  shows "\<exists>rep. runConcurrentRequests1 env completion now requests ga = Returned rep \<and>
           successCount rep + failureCount rep = totalRequests rep \<and>
           totalRequests rep = length requests \<and>
           length (results rep) = length requests \<and>
           map logname1 (results rep) = map name requests"
proof -
  let ?ps = "dispatch (executeRequest1 env) (assembling env) ga now requests"
  obtain vs where vs: "map outcome ?ps = map Fulfilled vs"
    using dispatch1_values by blast
  have len: "length vs = length requests"
    using vs length_dispatch [of "executeRequest1 env" "assembling env" ga now requests]
    by (metis length_map)
  have joined: "allSettled completion ?ps = Some (map Fulfilled vs)"
    using allSettled_all [of completion ?ps] assms vs by (simp add: length_dispatch)
  let ?s = "forEach1 env \<lparr>succ1 = 0, fail1 = 0, total1 = 0, calls1 = []\<rparr>
              (zip (map Fulfilled vs) requests)"
  have counts: "succ1 ?s + fail1 ?s = length requests"
    using len by (simp add: forEach1_counts)
  have lines: "length (calls1 ?s) = length requests"
    using len by (simp add: forEach1_length)
  have names: "map logname1 (calls1 ?s) = map name requests"
    using len by (simp add: forEach1_names map_snd_zip_values)
  show ?thesis
    using joined counts lines names by (simp add: runConcurrentRequests1_def Let_def)
qed

lemma runConcurrentRequests2_returns:
  assumes "set completion = {0..<length requests}"
  shows "\<exists>rep. runConcurrentRequests2 env completion now requests ga = Returned rep \<and>
           successCount rep + failureCount rep = totalRequests rep \<and>
           totalRequests rep = length requests \<and>
           length (results rep) = length requests \<and>
           map logname2 (results rep) = map name requests \<and>
           successCount rep = length (success_times (results rep)) \<and>
           avgTime rep = spec_averageSuccessMillis (results rep)"
proof -
  let ?ps = "dispatch (executeRequest2 env) (assembling env) ga now requests"
  obtain vs where vs: "map outcome ?ps = map Fulfilled vs"
    using dispatch2_values by blast
  have len: "length vs = length requests"
    using vs length_dispatch [of "executeRequest2 env" "assembling env" ga now requests]
    by (metis length_map)
  have joined: "allSettled completion ?ps = Some (map Fulfilled vs)"
    using allSettled_all [of completion ?ps] assms vs by (simp add: length_dispatch)
  let ?s0 = "\<lparr>succ2 = 0, fail2 = 0, total2 = 0, calls2 = []\<rparr>"
  obtain s where s: "forEach2 env ?s0 (zip (map Fulfilled vs) requests) = Inr s"
    using forEach2_returns [OF zip_fulfilled] by blast
  have counts: "succ2 s + fail2 s = length requests"
    using forEach2_counts [OF s] len by simp
  have lines: "length (calls2 s) = length requests"
    using forEach2_length [OF s] len by simp
  have names: "map logname2 (calls2 s) = map name requests"
    using forEach2_names [OF s] len by (simp add: map_snd_zip_values)
  have sums: "total2 s = sum_list (success_times (calls2 s)) \<and>
              succ2 s = length (success_times (calls2 s))"
    using forEach2_success_times [OF s] by (simp add: success_times_def)
  have avg: "(if succ2 s > 0 then total2 s / of_nat (succ2 s) else 0) =
             spec_averageSuccessMillis (calls2 s)"
    using sums by (simp add: spec_averageSuccessMillis_def)
  show ?thesis
    using joined s counts lines names sums avg by (simp add: runConcurrentRequests2_def Let_def)
qed

text \<open>Slot by slot, the outcomes of a dispatch are those of the requests themselves.\<close>

lemma dispatch1_outcomes:
  "map outcome (dispatch (executeRequest1 env) cost ga now rs) =
   map (\<lambda>r. outcome (executeRequest1 env 0 r ga)) rs"
proof (induction rs arbitrary: now)
  case Nil
  then show ?case by simp
next
  case (Cons r rs)
  then show ?case using executeRequest1_clock [of env now r ga] by simp
qed

lemma dispatch2_outcomes:
  "map outcome (dispatch (executeRequest2 env) cost ga now rs) =
   map (\<lambda>r. outcome (executeRequest2 env 0 r ga)) rs"
proof (induction rs arbitrary: now)
  case Nil
  then show ?case by simp
next
  case (Cons r rs)
  then show ?case using executeRequest2_clock [of env now r ga] by simp
qed

text \<open>Each pass of the loop adds one line, made from its own result and request.\<close>

lemma each1_line:
  "calls1 (each1 env s res rq) = calls1 s @ [last (calls1 (each1 env s' res rq))]"
  by (simp add: each1_def split: settled.split)

lemma forEach1_lines:
  "calls1 (forEach1 env s xs) =
   calls1 s @ map (\<lambda>(res, rq). last (calls1 (each1 env s0 res rq))) xs"
proof (induction env s xs rule: forEach1.induct)
  case (1 env s)
  then show ?case by simp
next
  case (2 env s result rq rest)
  then show ?case using each1_line [of env s result rq s0] by simp
qed

lemma each2_line:
  "calls2 (each2 env s v rq) = calls2 s @ [last (calls2 (each2 env s' v rq))]"
  by (cases v) (simp_all add: each2_def)

lemma forEach2_lines:
  "forEach2 env s (zip (map Fulfilled vs) rs) = Inr s' \<Longrightarrow>
   calls2 s' = calls2 s @ map (\<lambda>(v, rq). last (calls2 (each2 env s0 v rq))) (zip vs rs)"
proof (induction vs arbitrary: rs s)
  case Nil
  then show ?case by simp
next
  case (Cons v vs)
  show ?case
  proof (cases rs)
    case Nil
    then show ?thesis using Cons.prems by simp
  next
    case (Cons rq rest)
    have run: "forEach2 env (each2 env s v rq) (zip (map Fulfilled vs) rest) = Inr s'"
      using Cons.prems Cons by simp
    show ?thesis
      using Cons.IH [OF run] each2_line [of env s v rq s0] Cons by simp
  qed
qed

lemma zip_map_self: "zip (map f rs) rs = map (\<lambda>r. (f r, r)) rs"
  by (induction rs) simp_all

lemma runConcurrentRequests1_lines:
  assumes "set completion = {0..<length requests}"
  shows "\<exists>rep. runConcurrentRequests1 env completion now requests ga = Returned rep \<and>
           results rep =
             map (\<lambda>r. last (calls1 (each1 env \<lparr>succ1 = 0, fail1 = 0, total1 = 0, calls1 = []\<rparr>
                                (outcome (executeRequest1 env 0 r ga)) r))) requests"
proof -
  let ?ps = "dispatch (executeRequest1 env) (assembling env) ga now requests"
  let ?s0 = "\<lparr>succ1 = 0, fail1 = 0, total1 = 0, calls1 = []\<rparr>"
  have joined: "allSettled completion ?ps =
                  Some (map (\<lambda>r. outcome (executeRequest1 env 0 r ga)) requests)"
    using allSettled_all [of completion ?ps] assms
    by (simp add: length_dispatch dispatch1_outcomes)
  have lines: "calls1 (forEach1 env ?s0
                 (zip (map (\<lambda>r. outcome (executeRequest1 env 0 r ga)) requests) requests)) =
               map (\<lambda>r. last (calls1 (each1 env ?s0 (outcome (executeRequest1 env 0 r ga)) r)))
                 requests"
    by (simp add: forEach1_lines [where ?s0.0 = ?s0] zip_map_self comp_def)
  show ?thesis
    using joined lines by (simp add: runConcurrentRequests1_def Let_def)
qed

lemma runConcurrentRequests2_lines:
  assumes "set completion = {0..<length requests}"
  shows "\<exists>rep vs. runConcurrentRequests2 env completion now requests ga = Returned rep \<and>
           map Fulfilled vs = map (\<lambda>r. outcome (executeRequest2 env 0 r ga)) requests \<and>
           results rep =
             map (\<lambda>(v, r). last (calls2 (each2 env \<lparr>succ2 = 0, fail2 = 0, total2 = 0, calls2 = []\<rparr>
                                     v r))) (zip vs requests)"
proof -
  let ?ps = "dispatch (executeRequest2 env) (assembling env) ga now requests"
  let ?s0 = "\<lparr>succ2 = 0, fail2 = 0, total2 = 0, calls2 = []\<rparr>"
  obtain vs where vs: "map outcome ?ps = map Fulfilled vs"
    using dispatch2_values by blast
  have own: "map Fulfilled vs = map (\<lambda>r. outcome (executeRequest2 env 0 r ga)) requests"
    using vs dispatch2_outcomes [of env "assembling env" ga now requests] by simp
  have joined: "allSettled completion ?ps = Some (map Fulfilled vs)"
    using allSettled_all [of completion ?ps] assms vs by (simp add: length_dispatch)
  obtain s where s: "forEach2 env ?s0 (zip (map Fulfilled vs) requests) = Inr s"
    using forEach2_returns [OF zip_fulfilled] by blast
  have lines: "calls2 s = map (\<lambda>(v, r). last (calls2 (each2 env ?s0 v r))) (zip vs requests)"
    using forEach2_lines [OF s, where ?s0.0 = ?s0] by simp
  let ?rep = "\<lparr>results = calls2 s, totalRequests = length requests, successCount = succ2 s,
            failureCount = fail2 s,
            totalTime = resumes_at (now + sum_list (map (assembling env) requests)) ?ps - now,
            avgTime = (if succ2 s > 0 then total2 s / of_nat (succ2 s) else 0)\<rparr>"
  have run: "runConcurrentRequests2 env completion now requests ga = Returned ?rep"
    using joined s by (simp add: runConcurrentRequests2_def Let_def)
  have shown: "results ?rep =
      map (\<lambda>(v, r). last (calls2 (each2 env ?s0 v r))) (zip vs requests)"
    using lines by simp
  show ?thesis
    using run own shown by blast
qed

text \<open>Line \<open>i\<close> of a batch is the line that request \<open>i\<close> gives when it runs alone.\<close>

lemma line_of_own_request1:
  assumes "set completion = {0..<length requests}" and "i < length requests"
    and "runConcurrentRequests1 env completion now requests ga = Returned rep"
  shows "\<exists>single. runConcurrentRequests1 env [0] t [requests ! i] ga = Returned single \<and>
           results single = [results rep ! i]"
proof -
  have one: "set [0] = {0..<length [requests ! i]}" by simp
  obtain single where single: "runConcurrentRequests1 env [0] t [requests ! i] ga = Returned single"
    "results single =
       map (\<lambda>r. last (calls1 (each1 env \<lparr>succ1 = 0, fail1 = 0, total1 = 0, calls1 = []\<rparr>
                          (outcome (executeRequest1 env 0 r ga)) r))) [requests ! i]"
    using runConcurrentRequests1_lines [OF one, of env t ga] by blast
  have "results rep =
       map (\<lambda>r. last (calls1 (each1 env \<lparr>succ1 = 0, fail1 = 0, total1 = 0, calls1 = []\<rparr>
                          (outcome (executeRequest1 env 0 r ga)) r))) requests"
    using runConcurrentRequests1_lines [OF assms(1), of env now ga] assms(3) by simp
  then have "results single = [results rep ! i]"
    using single(2) assms(2) by simp
  then show ?thesis using single(1) by simp
qed

lemma line_of_own_request2:
  assumes "set completion = {0..<length requests}" and "i < length requests"
    and "runConcurrentRequests2 env completion now requests ga = Returned rep"
  shows "\<exists>single. runConcurrentRequests2 env [0] t [requests ! i] ga = Returned single \<and>
           results single = [results rep ! i]"
proof -
  let ?s0 = "\<lparr>succ2 = 0, fail2 = 0, total2 = 0, calls2 = []\<rparr>"
  have one: "set [0] = {0..<length [requests ! i]}" by simp
  obtain single ws where single:
    "runConcurrentRequests2 env [0] t [requests ! i] ga = Returned single"
    "map Fulfilled ws = map (\<lambda>r. outcome (executeRequest2 env 0 r ga)) [requests ! i]"
    "results single = map (\<lambda>(v, r). last (calls2 (each2 env ?s0 v r))) (zip ws [requests ! i])"
    using runConcurrentRequests2_lines [OF one, of env t ga] by blast
  obtain vs where batch:
    "map Fulfilled vs = map (\<lambda>r. outcome (executeRequest2 env 0 r ga)) requests"
    "results rep = map (\<lambda>(v, r). last (calls2 (each2 env ?s0 v r))) (zip vs requests)"
    using runConcurrentRequests2_lines [OF assms(1), of env now ga] assms(3) by auto
  have len: "length vs = length requests"
    using batch(1) by (metis length_map)
  obtain w where w: "ws = [w]" "Fulfilled w = outcome (executeRequest2 env 0 (requests ! i) ga)"
    using single(2) by (cases ws) auto
  have "Fulfilled (vs ! i) = outcome (executeRequest2 env 0 (requests ! i) ga)"
    using batch(1) assms(2) len by (metis nth_map)
  then have same: "w = vs ! i"
    using w(2) by (metis settled.inject(1))
  have "results rep ! i = last (calls2 (each2 env ?s0 (vs ! i) (requests ! i)))"
    using batch(2) assms(2) len by simp
  then have "results single = [results rep ! i]"
    using single(3) w(1) same by simp
  then show ?thesis using single(1) by simp
qed

text \<open>
  The second variant on the example batch: the request whose transport call raises is the
  one failure, and the average is taken over the two successes.
\<close>

lemma second_variant_mixed_batch:
  "runConcurrentRequests2 example_env [1, 2, 0] 0 mixed_batch None =
     Returned
       \<lparr>results =
          [\<lparr>status2 = ''success'', statusCode2 = Some (Num 200), logname2 = ''Request 1'',
            time2 = Some (Ms 31), text2 = Some ''ok''\<rparr>,
           \<lparr>status2 = ''error'', statusCode2 = Some (Str ''ERR_NETWORK''),
            logname2 = ''Request 2'', time2 = None, text2 = None\<rparr>,
           \<lparr>status2 = ''success'', statusCode2 = Some (Num 200), logname2 = ''Request 3'',
            time2 = Some (Ms 21), text2 = Some ''ok''\<rparr>],
        totalRequests = 3, successCount = 2, failureCount = 1, totalTime = 31, avgTime = 26\<rparr>"
  by code_simp

section \<open>The claims\<close>

text \<open>
  C1. A batch of three requests in which the transport call of the second raises a network
  error is to give three results, the second a failure and the other two successes with
  their own timings, and a summary with two successes and one failure. The first variant
  does not: its loop tests the status of the settled promise, which is always
  \<^verbatim>\<open>fulfilled\<close>, so the failed request is logged and counted as a success.
\<close>

theorem first_variant_counts_failure_as_success:
  "map outcome (dispatch (executeRequest1 example_env) (assembling example_env) None 0 mixed_batch) =
     [Fulfilled (Success1 ''Request 1'' ''ok'' (Ms 31)),
      Fulfilled (Error1 ''Request 2'' ''Network Error'' (Ms 11)),
      Fulfilled (Success1 ''Request 3'' ''ok'' (Ms 21))] \<and>
   runConcurrentRequests1 example_env [1, 2, 0] 0 mixed_batch None =
     Returned
       \<lparr>results =
          [\<lparr>status1 = ''success'', logname1 = ''Request 1'', time1 = Some (Ms 31),
            text1 = Some ''ok''\<rparr>,
           \<lparr>status1 = ''success'', logname1 = ''Request 2'', time1 = Some (Ms 11),
            text1 = None\<rparr>,
           \<lparr>status1 = ''success'', logname1 = ''Request 3'', time1 = Some (Ms 21),
            text1 = Some ''ok''\<rparr>],
        totalRequests = 3, successCount = 3, failureCount = 0, totalTime = 31, avgTime = 21\<rparr>"
  by code_simp

text \<open>
  C2. For every batch whose requests all settle, in whatever order, the summary satisfies
  \<open>successCount + failureCount = totalRequests\<close>, and \<open>totalRequests\<close> is the number of
  results and the number of requests. Both variants.
\<close>

theorem summary_counts_add_up:
  assumes "set completion = {0..<length requests}"
  shows "(\<exists>rep. runConcurrentRequests1 env completion now requests ga = Returned rep \<and>
            successCount rep + failureCount rep = totalRequests rep \<and>
            totalRequests rep = length (results rep) \<and>
            length (results rep) = length requests) \<and>
         (\<exists>rep. runConcurrentRequests2 env completion now requests ga = Returned rep \<and>
            successCount rep + failureCount rep = totalRequests rep \<and>
            totalRequests rep = length (results rep) \<and>
            length (results rep) = length requests)"
proof -
  obtain rep1 where "runConcurrentRequests1 env completion now requests ga = Returned rep1"
    "successCount rep1 + failureCount rep1 = totalRequests rep1"
    "totalRequests rep1 = length requests" "length (results rep1) = length requests"
    using runConcurrentRequests1_returns [OF assms] by blast
  moreover obtain rep2 where "runConcurrentRequests2 env completion now requests ga = Returned rep2"
    "successCount rep2 + failureCount rep2 = totalRequests rep2"
    "totalRequests rep2 = length requests" "length (results rep2) = length requests"
    using runConcurrentRequests2_returns [OF assms] by blast
  ultimately show ?thesis by simp
qed

theorem summary_counts_add_up_witness:
  "set [1, 2, 0] = {0..<length mixed_batch} \<and>
   (\<exists>rep. runConcurrentRequests1 example_env [1, 2, 0] 0 mixed_batch None = Returned rep \<and>
      successCount rep + failureCount rep = totalRequests rep \<and>
      totalRequests rep = length (results rep) \<and>
      length (results rep) = length mixed_batch) \<and>
   (\<exists>rep. runConcurrentRequests2 example_env [1, 2, 0] 0 mixed_batch None = Returned rep \<and>
      successCount rep + failureCount rep = totalRequests rep \<and>
      totalRequests rep = length (results rep) \<and>
      length (results rep) = length mixed_batch)"
proof -
  have h: "set [1, 2, 0] = {0..<length mixed_batch}"
    by (auto simp add: mixed_batch_def)
  show ?thesis
    using h summary_counts_add_up [OF h, of example_env 0 None] by blast
qed

text \<open>
  C3. For every batch whose requests all settle, and for every order in which they do,
  result \<open>i\<close> belongs to request \<open>i\<close>: the join holds at position \<open>i\<close> the object that
  executing request \<open>i\<close> comes to, and line \<open>i\<close> of the report names request \<open>i\<close> and
  is the very line that request \<open>i\<close> gives when it is run as a batch of its own. Both
  variants.
\<close>

theorem results_follow_input_order:
  assumes "set completion = {0..<length requests}"
  shows "allSettled completion
           (dispatch (executeRequest1 env) (assembling env) ga now requests) =
           Some (map (\<lambda>r. outcome (executeRequest1 env 0 r ga)) requests) \<and>
         allSettled completion
           (dispatch (executeRequest2 env) (assembling env) ga now requests) =
           Some (map (\<lambda>r. outcome (executeRequest2 env 0 r ga)) requests) \<and>
         (\<exists>vs. allSettled completion
                 (dispatch (executeRequest1 env) (assembling env) ga now requests) =
                 Some (map Fulfilled vs) \<and> map name1 vs = map name requests) \<and>
         (\<exists>vs. allSettled completion
                 (dispatch (executeRequest2 env) (assembling env) ga now requests) =
                 Some (map Fulfilled vs) \<and> map name2 vs = map name requests) \<and>
         (\<exists>rep. runConcurrentRequests1 env completion now requests ga = Returned rep \<and>
            map logname1 (results rep) = map name requests \<and>
            (\<forall>i<length requests.
               \<exists>single. runConcurrentRequests1 env [0] t [requests ! i] ga = Returned single \<and>
                        results single = [results rep ! i])) \<and>
         (\<exists>rep. runConcurrentRequests2 env completion now requests ga = Returned rep \<and>
            map logname2 (results rep) = map name requests \<and>
            (\<forall>i<length requests.
               \<exists>single. runConcurrentRequests2 env [0] t [requests ! i] ga = Returned single \<and>
                        results single = [results rep ! i]))"
proof -
  let ?ps1 = "dispatch (executeRequest1 env) (assembling env) ga now requests"
  let ?ps2 = "dispatch (executeRequest2 env) (assembling env) ga now requests"
  have join1: "allSettled completion ?ps1 =
                 Some (map (\<lambda>r. outcome (executeRequest1 env 0 r ga)) requests)"
    using allSettled_all [of completion ?ps1] assms
    by (simp add: length_dispatch dispatch1_outcomes)
  have join2: "allSettled completion ?ps2 =
                 Some (map (\<lambda>r. outcome (executeRequest2 env 0 r ga)) requests)"
    using allSettled_all [of completion ?ps2] assms
    by (simp add: length_dispatch dispatch2_outcomes)
  obtain vs1 where vs1: "map outcome ?ps1 = map Fulfilled vs1" "map name1 vs1 = map name requests"
    using dispatch1_values by blast
  obtain vs2 where vs2: "map outcome ?ps2 = map Fulfilled vs2" "map name2 vs2 = map name requests"
    using dispatch2_values by blast
  have named1: "\<exists>vs. allSettled completion ?ps1 = Some (map Fulfilled vs) \<and>
                     map name1 vs = map name requests"
    using allSettled_all [of completion ?ps1] assms vs1 by (auto simp add: length_dispatch)
  have named2: "\<exists>vs. allSettled completion ?ps2 = Some (map Fulfilled vs) \<and>
                     map name2 vs = map name requests"
    using allSettled_all [of completion ?ps2] assms vs2 by (auto simp add: length_dispatch)
  obtain rep1 where rep1:
    "runConcurrentRequests1 env completion now requests ga = Returned rep1"
    "map logname1 (results rep1) = map name requests"
    using runConcurrentRequests1_returns [OF assms] by blast
  obtain rep2 where rep2:
    "runConcurrentRequests2 env completion now requests ga = Returned rep2"
    "map logname2 (results rep2) = map name requests"
    using runConcurrentRequests2_returns [OF assms] by blast
  have lines1: "\<forall>i<length requests.
      \<exists>single. runConcurrentRequests1 env [0] t [requests ! i] ga = Returned single \<and>
               results single = [results rep1 ! i]"
    using line_of_own_request1 [OF assms _ rep1(1)] by blast
  have lines2: "\<forall>i<length requests.
      \<exists>single. runConcurrentRequests2 env [0] t [requests ! i] ga = Returned single \<and>
               results single = [results rep2 ! i]"
    using line_of_own_request2 [OF assms _ rep2(1)] by blast
  have report1: "\<exists>rep. runConcurrentRequests1 env completion now requests ga = Returned rep \<and>
      map logname1 (results rep) = map name requests \<and>
      (\<forall>i<length requests.
         \<exists>single. runConcurrentRequests1 env [0] t [requests ! i] ga = Returned single \<and>
                  results single = [results rep ! i])"
    using rep1 lines1 by blast
  have report2: "\<exists>rep. runConcurrentRequests2 env completion now requests ga = Returned rep \<and>
      map logname2 (results rep) = map name requests \<and>
      (\<forall>i<length requests.
         \<exists>single. runConcurrentRequests2 env [0] t [requests ! i] ga = Returned single \<and>
                  results single = [results rep ! i])"
    using rep2 lines2 by blast
  show ?thesis
    using join1 join2 named1 named2 report1 report2 by (intro conjI)
qed

theorem results_follow_input_order_witness:
  "set [2, 0, 1] = {0..<length mixed_batch} \<and>
   (1::nat) < length mixed_batch \<and>
   allSettled [2, 0, 1]
     (dispatch (executeRequest1 example_env) (assembling example_env) None 0 mixed_batch) =
     Some (map (\<lambda>r. outcome (executeRequest1 example_env 0 r None)) mixed_batch) \<and>
   allSettled [2, 0, 1]
     (dispatch (executeRequest2 example_env) (assembling example_env) None 0 mixed_batch) =
     Some (map (\<lambda>r. outcome (executeRequest2 example_env 0 r None)) mixed_batch) \<and>
   (\<exists>vs. allSettled [2, 0, 1]
           (dispatch (executeRequest1 example_env) (assembling example_env) None 0 mixed_batch) =
           Some (map Fulfilled vs) \<and> map name1 vs = map name mixed_batch) \<and>
   (\<exists>vs. allSettled [2, 0, 1]
           (dispatch (executeRequest2 example_env) (assembling example_env) None 0 mixed_batch) =
           Some (map Fulfilled vs) \<and> map name2 vs = map name mixed_batch) \<and>
   (\<exists>rep. runConcurrentRequests1 example_env [2, 0, 1] 0 mixed_batch None = Returned rep \<and>
      map logname1 (results rep) = [''Request 1'', ''Request 2'', ''Request 3''] \<and>
      (\<exists>single. runConcurrentRequests1 example_env [0] 7 [mixed_batch ! 1] None = Returned single \<and>
                results single = [results rep ! 1])) \<and>
   (\<exists>rep. runConcurrentRequests2 example_env [2, 0, 1] 0 mixed_batch None = Returned rep \<and>
      map logname2 (results rep) = [''Request 1'', ''Request 2'', ''Request 3''] \<and>
      (\<exists>single. runConcurrentRequests2 example_env [0] 7 [mixed_batch ! 1] None = Returned single \<and>
                results single = [results rep ! 1]))"
proof -
  have h: "set [2, 0, 1] = {0..<length mixed_batch}"
    by (auto simp add: mixed_batch_def)
  have i: "(1::nat) < length mixed_batch"
    by (simp add: mixed_batch_def)
  have names: "map name mixed_batch = [''Request 1'', ''Request 2'', ''Request 3'']"
    by (simp add: mixed_batch_def plain_def)
  note order = results_follow_input_order [OF h, of example_env None 0 7]
  from order obtain rep1 where rep1:
    "runConcurrentRequests1 example_env [2, 0, 1] 0 mixed_batch None = Returned rep1"
    "map logname1 (results rep1) = map name mixed_batch"
    "\<forall>i<length mixed_batch.
       \<exists>single. runConcurrentRequests1 example_env [0] 7 [mixed_batch ! i] None = Returned single \<and>
                results single = [results rep1 ! i]"
    by blast
  from order obtain rep2 where rep2:
    "runConcurrentRequests2 example_env [2, 0, 1] 0 mixed_batch None = Returned rep2"
    "map logname2 (results rep2) = map name mixed_batch"
    "\<forall>i<length mixed_batch.
       \<exists>single. runConcurrentRequests2 example_env [0] 7 [mixed_batch ! i] None = Returned single \<and>
                results single = [results rep2 ! i]"
    by blast
  have report1: "\<exists>rep. runConcurrentRequests1 example_env [2, 0, 1] 0 mixed_batch None = Returned rep \<and>
      map logname1 (results rep) = [''Request 1'', ''Request 2'', ''Request 3''] \<and>
      (\<exists>single. runConcurrentRequests1 example_env [0] 7 [mixed_batch ! 1] None = Returned single \<and>
                results single = [results rep ! 1])"
    using rep1 i names by auto
  have report2: "\<exists>rep. runConcurrentRequests2 example_env [2, 0, 1] 0 mixed_batch None = Returned rep \<and>
      map logname2 (results rep) = [''Request 1'', ''Request 2'', ''Request 3''] \<and>
      (\<exists>single. runConcurrentRequests2 example_env [0] 7 [mixed_batch ! 1] None = Returned single \<and>
                results single = [results rep ! 1])"
    using rep2 i names by auto
  show ?thesis
    using h i order report1 report2 by (intro conjI) blast+
qed

text \<open>
  C5. The average is to be the mean of the elapsed times of the successful results only,
  and 0 when there is none. The first variant does not: it adds the time of every settled
  request and divides by their number. A batch of the one failing request has the average
  11 instead of 0, and the example batch has (31 + 11 + 21) / 3 = 21 instead of
  (31 + 21) / 2 = 26.
\<close>

theorem first_variant_averages_failures:
  "outcome (executeRequest1 example_env 0 (plain ''Request 2'' ''http://b'') None) =
     Fulfilled (Error1 ''Request 2'' ''Network Error'' (Ms 11)) \<and>
   runConcurrentRequests1 example_env [0] 0 [plain ''Request 2'' ''http://b''] None =
     Returned
       \<lparr>results =
          [\<lparr>status1 = ''success'', logname1 = ''Request 2'', time1 = Some (Ms 11),
            text1 = None\<rparr>],
        totalRequests = 1, successCount = 1, failureCount = 0, totalTime = 11, avgTime = 11\<rparr> \<and>
   (case runConcurrentRequests1 example_env [1, 2, 0] 0 mixed_batch None of
      Returned rep \<Rightarrow> avgTime rep = 21
    | _ \<Rightarrow> False)"
  by code_simp

text \<open>
  The second variant computes the spec's average: for every batch whose requests all
  settle, \<open>avgTime\<close> is the mean over the successful results, and 0 without one.
\<close>

lemma second_variant_average:
  assumes "set completion = {0..<length requests}"
  shows "\<exists>rep. runConcurrentRequests2 env completion now requests ga = Returned rep \<and>
           successCount rep = length (success_times (results rep)) \<and>
           avgTime rep = spec_averageSuccessMillis (results rep)"
  using runConcurrentRequests2_returns [OF assms] by blast

text \<open>
  C4. For every request, global auth and transport, a transport that throws included,
  \<^verbatim>\<open>executeRequest\<close> fulfils its promise with a result object and never rejects. An error
  thrown by the transport, or while the headers are prepared, becomes a result with
  \<^verbatim>\<open>status: 'error'\<close> that carries the message of the error. Both variants.
\<close>

theorem executeRequest_never_rejects:
  "(\<exists>v. outcome (executeRequest1 env now r ga) = Fulfilled v) \<and>
   (\<exists>v. outcome (executeRequest2 env now r ga) = Fulfilled v) \<and>
   (prepareHeaders (headers r) (auth r) ga = Inr (hs, w) \<and>
    axios env \<lparr>cmethod = toLowerCase (http_method r), curl = url r, cheaders = hs,
               cdata = or_null (body r)\<rparr> = Inl e \<longrightarrow>
      (\<exists>t. outcome (executeRequest1 env now r ga) = Fulfilled (Error1 (name r) (message e) t))) \<and>
   (prepareHeaders (headers r) (auth r) ga = Inr (hs, w) \<and>
    axios env \<lparr>cmethod = toLowerCase (http_method r), curl = url r, cheaders = COMMON_HEADERS ++ hs,
               cdata = or_null (body r)\<rparr> = Inl e \<longrightarrow>
      (\<exists>c d. outcome (executeRequest2 env now r ga) =
               Fulfilled (Error2 (name r) (message e) c d))) \<and>
   (prepareHeaders (headers r) (auth r) ga = Inl e' \<longrightarrow>
      (\<exists>t. outcome (executeRequest1 env now r ga) = Fulfilled (Error1 (name r) (message e') t)) \<and>
      (\<exists>c d. outcome (executeRequest2 env now r ga) =
               Fulfilled (Error2 (name r) (message e') c d)))"
  by (simp add: executeRequest1_def executeRequest2_def Let_def split: sum.split prod.split)

theorem executeRequest_never_rejects_witness:
  "prepareHeaders (headers (plain ''Request 2'' ''http://b'')) (auth (plain ''Request 2'' ''http://b''))
     None = Inr (Map.empty, []) \<and>
   axios example_env \<lparr>cmethod = ''get'', curl = ''http://b'', cheaders = Map.empty,
                      cdata = None\<rparr> = Inl network_error \<and>
   axios example_env \<lparr>cmethod = ''get'', curl = ''http://b'', cheaders = COMMON_HEADERS ++ Map.empty,
                      cdata = None\<rparr> = Inl network_error \<and>
   (\<exists>t. outcome (executeRequest1 example_env 0 (plain ''Request 2'' ''http://b'') None) =
         Fulfilled (Error1 ''Request 2'' ''Network Error'' t)) \<and>
   (\<exists>c d. outcome (executeRequest2 example_env 0 (plain ''Request 2'' ''http://b'') None) =
         Fulfilled (Error2 ''Request 2'' ''Network Error'' c d)) \<and>
   prepareHeaders [] (Some (bearer_auth None)) None =
     Inl (TypeError ''Cannot read properties of undefined (reading '0')'') \<and>
   (\<exists>t. outcome (executeRequest1 example_env 0
                   ((plain ''Request 4'' ''http://a'')\<lparr>auth := Some (bearer_auth None)\<rparr>) None) =
         Fulfilled (Error1 ''Request 4'' ''Cannot read properties of undefined (reading '0')'' t))"
proof -
  let ?r = "plain ''Request 2'' ''http://b''"
  let ?q = "(plain ''Request 4'' ''http://a'')\<lparr>auth := Some (bearer_auth None)\<rparr>"
  have p: "prepareHeaders (headers ?r) (auth ?r) None = Inr (Map.empty, [])"
    by (simp add: plain_def prepareHeaders_def applyAuth_def or_else_def reduce_headers_def)
  have cfg: "toLowerCase (http_method ?r) = ''get''" "url ?r = ''http://b''" "or_null (body ?r) = None"
    "name ?r = ''Request 2''"
    by (simp_all add: plain_def or_null_def truthy_def) code_simp
  have a1: "axios example_env \<lparr>cmethod = ''get'', curl = ''http://b'', cheaders = Map.empty,
                                cdata = None\<rparr> = Inl network_error"
    by (simp add: example_env_def)
  have a2: "axios example_env \<lparr>cmethod = ''get'', curl = ''http://b'',
                                cheaders = COMMON_HEADERS ++ Map.empty, cdata = None\<rparr> =
            Inl network_error"
    by (simp add: example_env_def)
  have q: "prepareHeaders (headers ?q) (auth ?q) None =
             Inl (TypeError ''Cannot read properties of undefined (reading '0')'')"
    "prepareHeaders [] (Some (bearer_auth None)) None =
             Inl (TypeError ''Cannot read properties of undefined (reading '0')'')"
    by (simp_all add: plain_def prepareHeaders_def applyAuth_def or_else_def bearer_auth_def
          bearer_handler_def)
  have m: "message network_error = ''Network Error''"
    "message (TypeError ''Cannot read properties of undefined (reading '0')'') =
       ''Cannot read properties of undefined (reading '0')''"
    "name ?q = ''Request 4''"
    by (simp_all add: network_error_def TypeError_def plain_def)
  show ?thesis
    using p cfg a1 a2 q m
      executeRequest_never_rejects [of example_env 0 ?r None Map.empty "[]" network_error]
      executeRequest_never_rejects [of example_env 0 ?q None _ _ _
        "TypeError ''Cannot read properties of undefined (reading '0')''"]
    by simp
qed

text \<open>
  C6. Every result is to record the elapsed time, success or failure, and the recorded
  span is to be the transport call alone. The code differs on both counts. On the
  request whose transport call takes 10 ms and fails, after 1 ms of header preparation,
  the first variant records 11 ms and the second variant's result has no time at all.
\<close>

theorem elapsed_is_not_the_transport_span:
  "latency example_env
     \<lparr>cmethod = ''get'', curl = ''http://b'', cheaders = Map.empty, cdata = None\<rparr> = 10 \<and>
   outcome (executeRequest1 example_env 0 (plain ''Request 2'' ''http://b'') None) =
     Fulfilled (Error1 ''Request 2'' ''Network Error'' (Ms 11)) \<and>
   outcome (executeRequest2 example_env 0 (plain ''Request 2'' ''http://b'') None) =
     Fulfilled (Error2 ''Request 2'' ''Network Error'' (Some (Str ''ERR_NETWORK'')) None) \<and>
   timeTaken2 (Error2 ''Request 2'' ''Network Error'' (Some (Str ''ERR_NETWORK'')) None) = None"
  by code_simp

text \<open>
  C6 as amended. \<^verbatim>\<open>startTime\<close> is read on entry, before the headers are prepared, and
  \<^verbatim>\<open>endTime\<close> when the transport has settled or the error is caught. The first variant
  records the span from entry to settling in every result: header preparation plus
  transport call, or header preparation alone when that throws. The second variant records
  the same span in a success and no time in a failure.
\<close>

theorem elapsed_spans_entry_to_settling:
  "(\<exists>v. outcome (executeRequest1 env now r ga) = Fulfilled v \<and>
        timeTaken1 v = Ms (toFixed2 (settles_at (executeRequest1 env now r ga) - now))) \<and>
   (prepareHeaders (headers r) (auth r) ga = Inr (hs, w) \<longrightarrow>
      settles_at (executeRequest1 env now r ga) - now =
        assembling env r +
        latency env \<lparr>cmethod = toLowerCase (http_method r), curl = url r, cheaders = hs,
                     cdata = or_null (body r)\<rparr>) \<and>
   (prepareHeaders (headers r) (auth r) ga = Inl e \<longrightarrow>
      settles_at (executeRequest1 env now r ga) - now = assembling env r) \<and>
   (prepareHeaders (headers r) (auth r) ga = Inr (hs, w) \<and>
    axios env \<lparr>cmethod = toLowerCase (http_method r), curl = url r, cheaders = COMMON_HEADERS ++ hs,
               cdata = or_null (body r)\<rparr> = Inr resp \<longrightarrow>
      outcome (executeRequest2 env now r ga) =
        Fulfilled (Success2 (name r) (rdata resp) (rstatus resp)
          (Ms (toFixed2 (assembling env r +
             latency env \<lparr>cmethod = toLowerCase (http_method r), curl = url r,
                          cheaders = COMMON_HEADERS ++ hs, cdata = or_null (body r)\<rparr>))))) \<and>
   (prepareHeaders (headers r) (auth r) ga = Inl e \<or>
    prepareHeaders (headers r) (auth r) ga = Inr (hs, w) \<and>
    axios env \<lparr>cmethod = toLowerCase (http_method r), curl = url r, cheaders = COMMON_HEADERS ++ hs,
               cdata = or_null (body r)\<rparr> = Inl e \<longrightarrow>
      (\<exists>v. outcome (executeRequest2 env now r ga) = Fulfilled v \<and> timeTaken2 v = None))"
  by (auto simp add: executeRequest1_def executeRequest2_def Let_def split: sum.split prod.split)

theorem elapsed_spans_entry_to_settling_witness:
  "prepareHeaders [] None None = Inr (Map.empty, []) \<and>
   axios example_env \<lparr>cmethod = ''get'', curl = ''http://a'', cheaders = COMMON_HEADERS ++ Map.empty,
                      cdata = None\<rparr> = Inr \<lparr>rdata = ''ok'', rstatus = 200\<rparr> \<and>
   axios example_env \<lparr>cmethod = ''get'', curl = ''http://b'', cheaders = COMMON_HEADERS ++ Map.empty,
                      cdata = None\<rparr> = Inl network_error \<and>
   prepareHeaders [] (Some (bearer_auth None)) None =
     Inl (TypeError ''Cannot read properties of undefined (reading '0')'') \<and>
   settles_at (executeRequest1 example_env 5 (plain ''Request 1'' ''http://a'') None) - 5 = 31 \<and>
   settles_at (executeRequest1 example_env 5
      ((plain ''Request 4'' ''http://a'')\<lparr>auth := Some (bearer_auth None)\<rparr>) None) - 5 = 1 \<and>
   (\<exists>v. outcome (executeRequest1 example_env 5 (plain ''Request 1'' ''http://a'') None) =
          Fulfilled v \<and> timeTaken1 v = Ms 31) \<and>
   outcome (executeRequest2 example_env 5 (plain ''Request 1'' ''http://a'') None) =
     Fulfilled (Success2 ''Request 1'' ''ok'' 200 (Ms 31)) \<and>
   (\<exists>v. outcome (executeRequest2 example_env 5 (plain ''Request 2'' ''http://b'') None) =
          Fulfilled v \<and> timeTaken2 v = None)"
proof -
  let ?r1 = "plain ''Request 1'' ''http://a''"
  let ?r2 = "plain ''Request 2'' ''http://b''"
  let ?q = "(plain ''Request 4'' ''http://a'')\<lparr>auth := Some (bearer_auth None)\<rparr>"
  let ?e = "TypeError ''Cannot read properties of undefined (reading '0')''"
  have p: "prepareHeaders [] None None = Inr (Map.empty, [])"
    by (simp add: prepareHeaders_def applyAuth_def or_else_def reduce_headers_def)
  have q: "prepareHeaders [] (Some (bearer_auth None)) None = Inl ?e"
    by (simp add: prepareHeaders_def applyAuth_def or_else_def bearer_auth_def bearer_handler_def)
  have lower: "toLowerCase ''GET'' = ''get''"
    by code_simp
  have fields:
    "headers ?r1 = []" "auth ?r1 = None" "http_method ?r1 = ''GET''" "url ?r1 = ''http://a''"
    "or_null (body ?r1) = None" "name ?r1 = ''Request 1''"
    "headers ?r2 = []" "auth ?r2 = None" "http_method ?r2 = ''GET''" "url ?r2 = ''http://b''"
    "or_null (body ?r2) = None"
    "headers ?q = []" "auth ?q = Some (bearer_auth None)"
    by (simp_all add: plain_def or_null_def truthy_def)
  have a1: "axios example_env \<lparr>cmethod = ''get'', curl = ''http://a'',
              cheaders = COMMON_HEADERS ++ Map.empty, cdata = None\<rparr> =
            Inr \<lparr>rdata = ''ok'', rstatus = 200\<rparr>"
    by (simp add: example_env_def)
  have a2: "axios example_env \<lparr>cmethod = ''get'', curl = ''http://b'',
              cheaders = COMMON_HEADERS ++ Map.empty, cdata = None\<rparr> = Inl network_error"
    by (simp add: example_env_def)
  have costs: "assembling example_env ?r1 = 1" "assembling example_env ?q = 1"
    "latency example_env \<lparr>cmethod = ''get'', curl = ''http://a'', cheaders = Map.empty,
       cdata = None\<rparr> = 30"
    "latency example_env \<lparr>cmethod = ''get'', curl = ''http://a'',
       cheaders = COMMON_HEADERS ++ Map.empty, cdata = None\<rparr> = 30"
    by (simp_all add: example_env_def)
  have rounded: "toFixed2 31 = 31"
    by code_simp
  have resp: "rdata \<lparr>rdata = ''ok'', rstatus = 200\<rparr> = ''ok''"
    "rstatus \<lparr>rdata = ''ok'', rstatus = 200\<rparr> = 200"
    by simp_all
  show ?thesis
    using p q a1 a2 lower fields costs rounded resp
      elapsed_spans_entry_to_settling [of example_env 5 ?r1 None Map.empty "[]" _
        "\<lparr>rdata = ''ok'', rstatus = 200\<rparr>"]
      elapsed_spans_entry_to_settling [of example_env 5 ?r2 None Map.empty "[]" network_error]
      elapsed_spans_entry_to_settling [of example_env 5 ?q None _ _ ?e]
    by auto
qed

text \<open>
  C7. The auth that applies is the request's own when it has one and the global one
  otherwise. With a request-level auth the global auth has no effect on the headers; with
  neither, the headers of the request pass through unchanged.
\<close>

theorem request_auth_overrides_global:
  "prepareHeaders hs (Some ra) ga = prepareHeaders hs (Some ra) ga' \<and>
   prepareHeaders hs (Some ra) ga = applyAuth (reduce_headers hs) (Some ra) \<and>
   prepareHeaders hs None ga = applyAuth (reduce_headers hs) ga \<and>
   prepareHeaders hs None None = Inr (reduce_headers hs, [])"
  by (simp add: prepareHeaders_def or_else_def applyAuth_def)

text \<open>
  C8. An API key is to be written to the headers exactly when key name and key value are
  present and the location is \<^verbatim>\<open>header\<close>. The code tests the truthiness of name and
  value, so a key whose value is present but empty is not written, with all three fields
  present and the location \<^verbatim>\<open>header\<close>.
\<close>

theorem present_but_empty_key_value_is_not_written:
  "find_value empty_value_key ''key'' = Some ''X-Api-Key'' \<and>
   find_value empty_value_key ''value'' = Some [] \<and>
   find_value empty_value_key ''in'' = Some ''header'' \<and>
   applyAuth Map.empty (Some (apikey_auth empty_value_key)) =
     Inr (Map.empty, [''Unsupported or missing API key configuration.''])"
  by (simp add: empty_value_key_def apikey_auth_def find_value_def applyAuth_def
        apikey_handler_def truthy_def)

text \<open>
  C8 as amended. For an API-key auth that carries its list of entries: the header
  \<open>keyName\<close> is set to \<open>keyValue\<close> exactly when both are present and not empty and the
  location is \<^verbatim>\<open>header\<close>. Otherwise the headers are unchanged, one warning is printed, and
  the request comes to what it comes to without any auth: it does not fail for that reason.
\<close>

theorem apikey_written_iff_nonempty_and_in_header:
  assumes "type a = ''apikey''" and "apikey a = Some es"
  shows "(find_value es ''key'' = Some k \<and> k \<noteq> [] \<and> find_value es ''value'' = Some v \<and> v \<noteq> [] \<and>
          find_value es ''in'' = Some ''header'' \<longrightarrow>
            applyAuth h (Some a) = Inr (h(k \<mapsto> v), [])) \<and>
         (\<not> (\<exists>k v. find_value es ''key'' = Some k \<and> k \<noteq> [] \<and>
                   find_value es ''value'' = Some v \<and> v \<noteq> [] \<and>
                   find_value es ''in'' = Some ''header'') \<longrightarrow>
            applyAuth h (Some a) = Inr (h, [''Unsupported or missing API key configuration.'']) \<and>
            (axios env \<lparr>cmethod = toLowerCase (http_method r), curl = url r,
                        cheaders = reduce_headers (headers r), cdata = or_null (body r)\<rparr> =
               Inr resp \<longrightarrow>
               (\<exists>t. outcome (executeRequest1 env now (r\<lparr>auth := Some a\<rparr>) ga) =
                     Fulfilled (Success1 (name r) (rdata resp) t))) \<and>
            (axios env \<lparr>cmethod = toLowerCase (http_method r), curl = url r,
                        cheaders = COMMON_HEADERS ++ reduce_headers (headers r),
                        cdata = or_null (body r)\<rparr> = Inr resp' \<longrightarrow>
               (\<exists>t. outcome (executeRequest2 env now (r\<lparr>auth := Some a\<rparr>) ga) =
                     Fulfilled (Success2 (name r) (rdata resp') (rstatus resp') t))))"
proof -
  let ?valid = "truthy (find_value es ''key'') \<and> truthy (find_value es ''value'') \<and>
                find_value es ''in'' = Some ''header''"
  have valid_iff: "?valid \<longleftrightarrow>
      (\<exists>k v. find_value es ''key'' = Some k \<and> k \<noteq> [] \<and> find_value es ''value'' = Some v \<and>
             v \<noteq> [] \<and> find_value es ''in'' = Some ''header'')"
    by (auto simp add: truthy_def split: option.splits)
  have handler: "applyAuth h' (Some a) =
      (if ?valid then Inr (h'(the (find_value es ''key'') \<mapsto> the (find_value es ''value'')), [])
       else Inr (h', [''Unsupported or missing API key configuration.'']))" for h'
    using assms by (simp add: applyAuth_def apikey_handler_def Let_def)
  have written: "applyAuth h (Some a) = Inr (h(k \<mapsto> v), [])"
    if "find_value es ''key'' = Some k" "k \<noteq> []" "find_value es ''value'' = Some v" "v \<noteq> []"
       "find_value es ''in'' = Some ''header''"
    using that handler [of h] by (simp add: truthy_def)
  have skipped: "applyAuth h' (Some a) = Inr (h', [''Unsupported or missing API key configuration.''])"
    if "\<not> ?valid" for h'
    using that handler [of h'] by simp
  have proceeds1: "\<exists>t. outcome (executeRequest1 env now (r\<lparr>auth := Some a\<rparr>) ga) =
                       Fulfilled (Success1 (name r) (rdata resp) t)"
    if "\<not> ?valid"
       "axios env \<lparr>cmethod = toLowerCase (http_method r), curl = url r,
                   cheaders = reduce_headers (headers r), cdata = or_null (body r)\<rparr> = Inr resp"
    using skipped [OF that(1), of "reduce_headers (headers r)"] that(2)
    by (simp add: executeRequest1_def prepareHeaders_def or_else_def Let_def)
  have proceeds2: "\<exists>t. outcome (executeRequest2 env now (r\<lparr>auth := Some a\<rparr>) ga) =
                       Fulfilled (Success2 (name r) (rdata resp') (rstatus resp') t)"
    if "\<not> ?valid"
       "axios env \<lparr>cmethod = toLowerCase (http_method r), curl = url r,
                   cheaders = COMMON_HEADERS ++ reduce_headers (headers r),
                   cdata = or_null (body r)\<rparr> = Inr resp'"
    using skipped [OF that(1), of "reduce_headers (headers r)"] that(2)
    by (simp add: executeRequest2_def prepareHeaders_def or_else_def Let_def)
  show ?thesis
    using written skipped [of h] proceeds1 proceeds2 valid_iff by blast
qed

theorem apikey_written_iff_nonempty_and_in_header_witness:
  "type (apikey_auth header_key) = ''apikey'' \<and>
   apikey (apikey_auth header_key) = Some header_key \<and>
   find_value header_key ''key'' = Some ''X-Api-Key'' \<and>
   find_value header_key ''value'' = Some ''s3cret'' \<and>
   find_value header_key ''in'' = Some ''header'' \<and>
   applyAuth accept_text (Some (apikey_auth header_key)) =
     Inr (accept_text(''X-Api-Key'' \<mapsto> ''s3cret''), []) \<and>
   type (apikey_auth empty_value_key) = ''apikey'' \<and>
   apikey (apikey_auth empty_value_key) = Some empty_value_key \<and>
   \<not> (\<exists>k v. find_value empty_value_key ''key'' = Some k \<and> k \<noteq> [] \<and>
            find_value empty_value_key ''value'' = Some v \<and> v \<noteq> [] \<and>
            find_value empty_value_key ''in'' = Some ''header'') \<and>
   applyAuth accept_text (Some (apikey_auth empty_value_key)) =
     Inr (accept_text, [''Unsupported or missing API key configuration.'']) \<and>
   axios example_env \<lparr>cmethod = ''get'', curl = ''http://a'', cheaders = Map.empty,
                      cdata = None\<rparr> = Inr \<lparr>rdata = ''ok'', rstatus = 200\<rparr> \<and>
   axios example_env \<lparr>cmethod = ''get'', curl = ''http://a'', cheaders = COMMON_HEADERS ++ Map.empty,
                      cdata = None\<rparr> = Inr \<lparr>rdata = ''ok'', rstatus = 200\<rparr> \<and>
   (\<exists>t. outcome (executeRequest1 example_env 0
           ((plain ''Request 1'' ''http://a'')\<lparr>auth := Some (apikey_auth empty_value_key)\<rparr>) None) =
         Fulfilled (Success1 ''Request 1'' ''ok'' t)) \<and>
   (\<exists>t. outcome (executeRequest2 example_env 0
           ((plain ''Request 1'' ''http://a'')\<lparr>auth := Some (apikey_auth empty_value_key)\<rparr>) None) =
         Fulfilled (Success2 ''Request 1'' ''ok'' 200 t))"
proof -
  let ?r = "plain ''Request 1'' ''http://a''"
  have t1: "type (apikey_auth header_key) = ''apikey''"
    and l1: "apikey (apikey_auth header_key) = Some header_key"
    and t2: "type (apikey_auth empty_value_key) = ''apikey''"
    and l2: "apikey (apikey_auth empty_value_key) = Some empty_value_key"
    by (simp_all add: apikey_auth_def)
  have f1: "find_value header_key ''key'' = Some ''X-Api-Key''"
    "find_value header_key ''value'' = Some ''s3cret''"
    "find_value header_key ''in'' = Some ''header''"
    by (simp_all add: header_key_def find_value_def)
  have f2: "find_value empty_value_key ''value'' = Some []"
    by (simp add: empty_value_key_def find_value_def)
  have n2: "\<not> (\<exists>k v. find_value empty_value_key ''key'' = Some k \<and> k \<noteq> [] \<and>
                    find_value empty_value_key ''value'' = Some v \<and> v \<noteq> [] \<and>
                    find_value empty_value_key ''in'' = Some ''header'')"
    using f2 by simp
  have lower: "toLowerCase ''GET'' = ''get''"
    by code_simp
  have fields: "http_method ?r = ''GET''" "url ?r = ''http://a''" "reduce_headers (headers ?r) = Map.empty"
    "or_null (body ?r) = None" "name ?r = ''Request 1''"
    by (simp_all add: plain_def or_null_def truthy_def reduce_headers_def)
  have a1: "axios example_env \<lparr>cmethod = ''get'', curl = ''http://a'', cheaders = Map.empty,
              cdata = None\<rparr> = Inr \<lparr>rdata = ''ok'', rstatus = 200\<rparr>"
    by (simp add: example_env_def)
  have a2: "axios example_env \<lparr>cmethod = ''get'', curl = ''http://a'',
              cheaders = COMMON_HEADERS ++ Map.empty, cdata = None\<rparr> =
            Inr \<lparr>rdata = ''ok'', rstatus = 200\<rparr>"
    by (simp add: example_env_def)
  show ?thesis
    using t1 l1 t2 l2 f1 n2 lower fields a1 a2
      apikey_written_iff_nonempty_and_in_header [OF t1 l1,
        of "''X-Api-Key''" "''s3cret''" accept_text]
      apikey_written_iff_nonempty_and_in_header [OF t2 l2,
        of _ _ accept_text example_env ?r "\<lparr>rdata = ''ok'', rstatus = 200\<rparr>" 0 None
           "\<lparr>rdata = ''ok'', rstatus = 200\<rparr>"]
    by auto
qed

text \<open>
  An API-key auth without its list of entries makes the handler throw, and the request
  fails.
\<close>

lemma apikey_without_entries_fails:
  "applyAuth h (Some \<lparr>type = ''apikey'', apikey = None, bearer = None, basic = None\<rparr>) =
     Inl (TypeError ''Cannot read properties of undefined (reading 'find')'')"
  by (simp add: applyAuth_def apikey_handler_def)

text \<open>
  C9. A bearer auth is to set \<^verbatim>\<open>Authorization\<close> to \<^verbatim>\<open>Bearer\<close> and the token, and a request
  whose token is absent is to fail. The code reads \<^verbatim>\<open>bearer[0].value\<close> without a test: a
  first entry without a value gives the header \<^verbatim>\<open>Bearer undefined\<close>, and the request is
  sent and succeeds.
\<close>

theorem absent_token_value_does_not_fail:
  "bearer valueless_token = Some [\<lparr>key = ''token'', val = None\<rparr>] \<and>
   (case applyAuth Map.empty (Some valueless_token) of
      Inr (h, w) \<Rightarrow> h ''Authorization'' = Some ''Bearer undefined'' \<and> w = []
    | Inl e \<Rightarrow> False) \<and>
   outcome (executeRequest1 example_env 0
      ((plain ''Request 1'' ''http://a'')\<lparr>auth := Some valueless_token\<rparr>) None) =
     Fulfilled (Success1 ''Request 1'' ''ok'' (Ms 31)) \<and>
   outcome (executeRequest2 example_env 0
      ((plain ''Request 1'' ''http://a'')\<lparr>auth := Some valueless_token\<rparr>) None) =
     Fulfilled (Success2 ''Request 1'' ''ok'' 200 (Ms 31))"
  by code_simp

text \<open>
  C9 as amended. With a first bearer entry that has a value, \<^verbatim>\<open>Authorization\<close> is set to
  \<^verbatim>\<open>Bearer\<close> and that value. With no bearer entry at all (the list absent or empty) the
  request comes to a failure, in both variants, and a batch that holds the request still
  returns its report with one line for each request.
\<close>

theorem bearer_sets_authorization_or_request_fails:
  assumes "type a = ''bearer''"
  shows "(bearer a = Some (e # es) \<and> val e = Some tok \<longrightarrow>
            applyAuth h (Some a) = Inr (h(''Authorization'' \<mapsto> ''Bearer '' @ tok), [])) \<and>
         (bearer a = None \<or> bearer a = Some [] \<longrightarrow>
            (\<exists>m t. outcome (executeRequest1 env now (r\<lparr>auth := Some a\<rparr>) ga) =
                     Fulfilled (Error1 (name r) m t)) \<and>
            (\<exists>m c d. outcome (executeRequest2 env now (r\<lparr>auth := Some a\<rparr>) ga) =
                     Fulfilled (Error2 (name r) m c d)) \<and>
            (set completion = {0..<length (pre @ r\<lparr>auth := Some a\<rparr> # post)} \<longrightarrow>
               (\<exists>rep. runConcurrentRequests1 env completion now
                         (pre @ r\<lparr>auth := Some a\<rparr> # post) ga = Returned rep \<and>
                      length (results rep) = length pre + 1 + length post) \<and>
               (\<exists>rep. runConcurrentRequests2 env completion now
                         (pre @ r\<lparr>auth := Some a\<rparr> # post) ga = Returned rep \<and>
                      length (results rep) = length pre + 1 + length post)))"
proof -
  have token: "applyAuth h (Some a) = Inr (h(''Authorization'' \<mapsto> ''Bearer '' @ tok), [])"
    if "bearer a = Some (e # es)" "val e = Some tok"
    using that assms by (simp add: applyAuth_def bearer_handler_def template_def)
  have throws: "\<exists>err. prepareHeaders (headers r) (Some a) ga = Inl err"
    if "bearer a = None \<or> bearer a = Some []"
    using that assms
    by (auto simp add: prepareHeaders_def or_else_def applyAuth_def bearer_handler_def)
  have fails1: "\<exists>m t. outcome (executeRequest1 env now (r\<lparr>auth := Some a\<rparr>) ga) =
                       Fulfilled (Error1 (name r) m t)"
    if "bearer a = None \<or> bearer a = Some []"
    using throws [OF that] by (auto simp add: executeRequest1_def Let_def)
  have fails2: "\<exists>m c d. outcome (executeRequest2 env now (r\<lparr>auth := Some a\<rparr>) ga) =
                       Fulfilled (Error2 (name r) m c d)"
    if "bearer a = None \<or> bearer a = Some []"
    using throws [OF that] by (auto simp add: executeRequest2_def Let_def)
  have batch1: "\<exists>rep. runConcurrentRequests1 env completion now
                         (pre @ r\<lparr>auth := Some a\<rparr> # post) ga = Returned rep \<and>
                      length (results rep) = length pre + 1 + length post"
    if "set completion = {0..<length (pre @ r\<lparr>auth := Some a\<rparr> # post)}"
    using runConcurrentRequests1_returns [OF that, of env now ga] by auto
  have batch2: "\<exists>rep. runConcurrentRequests2 env completion now
                         (pre @ r\<lparr>auth := Some a\<rparr> # post) ga = Returned rep \<and>
                      length (results rep) = length pre + 1 + length post"
    if "set completion = {0..<length (pre @ r\<lparr>auth := Some a\<rparr> # post)}"
    using runConcurrentRequests2_returns [OF that, of env now ga] by auto
  show ?thesis
    using token fails1 fails2 batch1 batch2 by blast
qed

theorem bearer_sets_authorization_or_request_fails_witness:
  "type token_abc = ''bearer'' \<and>
   bearer token_abc = Some [\<lparr>key = ''token'', val = Some ''abc''\<rparr>] \<and>
   applyAuth accept_text (Some token_abc) =
     Inr (accept_text(''Authorization'' \<mapsto> ''Bearer abc''), []) \<and>
   type (bearer_auth None) = ''bearer'' \<and>
   bearer (bearer_auth None) = None \<and>
   (\<exists>m t. outcome (executeRequest1 example_env 0
             ((plain ''Request 2'' ''http://c'')\<lparr>auth := Some (bearer_auth None)\<rparr>) None) =
           Fulfilled (Error1 ''Request 2'' m t)) \<and>
   (\<exists>m c d. outcome (executeRequest2 example_env 0
             ((plain ''Request 2'' ''http://c'')\<lparr>auth := Some (bearer_auth None)\<rparr>) None) =
           Fulfilled (Error2 ''Request 2'' m c d)) \<and>
   set [2, 0, 1] =
     {0..<length ([plain ''Request 1'' ''http://a''] @
                  (plain ''Request 2'' ''http://c'')\<lparr>auth := Some (bearer_auth None)\<rparr> #
                  [plain ''Request 3'' ''http://c''])} \<and>
   (\<exists>rep. runConcurrentRequests1 example_env [2, 0, 1] 0
             ([plain ''Request 1'' ''http://a''] @
              (plain ''Request 2'' ''http://c'')\<lparr>auth := Some (bearer_auth None)\<rparr> #
              [plain ''Request 3'' ''http://c'']) None = Returned rep \<and>
          length (results rep) = 3) \<and>
   (\<exists>rep. runConcurrentRequests2 example_env [2, 0, 1] 0
             ([plain ''Request 1'' ''http://a''] @
              (plain ''Request 2'' ''http://c'')\<lparr>auth := Some (bearer_auth None)\<rparr> #
              [plain ''Request 3'' ''http://c'']) None = Returned rep \<and>
          length (results rep) = 3)"
proof -
  let ?r = "plain ''Request 2'' ''http://c''"
  let ?pre = "[plain ''Request 1'' ''http://a'']"
  let ?post = "[plain ''Request 3'' ''http://c'']"
  have t1: "type token_abc = ''bearer''" and t2: "type (bearer_auth None) = ''bearer''"
    by (simp_all add: token_abc_def bearer_auth_def)
  have b1: "bearer token_abc = Some [\<lparr>key = ''token'', val = Some ''abc''\<rparr>]"
    and b2: "bearer (bearer_auth None) = None"
    by (simp_all add: token_abc_def bearer_auth_def)
  have v: "val \<lparr>key = ''token'', val = Some ''abc''\<rparr> = Some ''abc''"
    by simp
  have n: "name ?r = ''Request 2''"
    by (simp add: plain_def)
  have c: "set [2, 0, 1] = {0..<length (?pre @ ?r\<lparr>auth := Some (bearer_auth None)\<rparr> # ?post)}"
    by auto
  have len: "length ?pre + 1 + length ?post = 3"
    by simp
  show ?thesis
    using t1 t2 b1 b2 v n c len
      bearer_sets_authorization_or_request_fails [OF t1,
        of "\<lparr>key = ''token'', val = Some ''abc''\<rparr>" "[]" "''abc''" accept_text]
      bearer_sets_authorization_or_request_fails [OF t2,
        of _ _ _ _ example_env 0 ?r None "[2, 0, 1]" ?pre ?post]
    by auto
qed

text \<open>
  C10. The bearer and basic handlers write the key \<^verbatim>\<open>Authorization\<close> and nothing else:
  every other key of the header object keeps its value and no other key appears. The
  API-key handler leaves every key but the key name as it was.
\<close>

theorem applyAuth_changes_one_key:
  "((type a = ''bearer'' \<or> type a = ''basic'') \<and> applyAuth h (Some a) = Inr (h', w) \<and>
    k \<noteq> ''Authorization'' \<longrightarrow> h' k = h k) \<and>
   (type a = ''apikey'' \<and> apikey a = Some es \<and> find_value es ''key'' = Some kn \<and>
    applyAuth h (Some a) = Inr (h', w) \<and> k \<noteq> kn \<longrightarrow> h' k = h k)"
  by (auto simp add: applyAuth_def bearer_handler_def basic_handler_def apikey_handler_def Let_def
        split: option.splits list.splits if_splits)

theorem applyAuth_changes_one_key_witness:
  "type token_abc = ''bearer'' \<and>
   applyAuth accept_text (Some token_abc) =
     Inr (accept_text(''Authorization'' \<mapsto> ''Bearer abc''), []) \<and>
   (accept_text(''Authorization'' \<mapsto> ''Bearer abc'')) ''Accept'' = accept_text ''Accept'' \<and>
   (accept_text(''Authorization'' \<mapsto> ''Bearer abc'')) ''X-Other'' = accept_text ''X-Other'' \<and>
   type basic_up = ''basic'' \<and>
   applyAuth accept_text (Some basic_up) =
     Inr (accept_text(''Authorization'' \<mapsto> ''Basic dTpw''), []) \<and>
   (accept_text(''Authorization'' \<mapsto> ''Basic dTpw'')) ''Accept'' = accept_text ''Accept'' \<and>
   type (apikey_auth header_key) = ''apikey'' \<and>
   apikey (apikey_auth header_key) = Some header_key \<and>
   find_value header_key ''key'' = Some ''X-Api-Key'' \<and>
   applyAuth accept_text (Some (apikey_auth header_key)) =
     Inr (accept_text(''X-Api-Key'' \<mapsto> ''s3cret''), []) \<and>
   (accept_text(''X-Api-Key'' \<mapsto> ''s3cret'')) ''Accept'' = accept_text ''Accept''"
proof -
  have t: "type token_abc = ''bearer''" "type basic_up = ''basic''"
    "type (apikey_auth header_key) = ''apikey''"
    "apikey (apikey_auth header_key) = Some header_key"
    by (simp_all add: token_abc_def bearer_auth_def basic_up_def apikey_auth_def)
  have f: "find_value header_key ''key'' = Some ''X-Api-Key''"
    by (simp add: header_key_def find_value_def)
  have a1: "applyAuth accept_text (Some token_abc) =
              Inr (accept_text(''Authorization'' \<mapsto> ''Bearer abc''), [])"
    by (simp add: applyAuth_def token_abc_def bearer_auth_def bearer_handler_def template_def)
  have a2: "applyAuth accept_text (Some basic_up) =
              Inr (accept_text(''Authorization'' \<mapsto> ''Basic dTpw''), [])"
    using base64_example
    by (simp add: applyAuth_def basic_up_def basic_handler_def template_def)
  have a3: "applyAuth accept_text (Some (apikey_auth header_key)) =
              Inr (accept_text(''X-Api-Key'' \<mapsto> ''s3cret''), [])"
    by (simp add: applyAuth_def apikey_auth_def apikey_handler_def header_key_def find_value_def
          truthy_def)
  have w1: "(accept_text(''Authorization'' \<mapsto> ''Bearer abc'')) ''Accept'' = accept_text ''Accept''"
    using t a1
      applyAuth_changes_one_key [of token_abc accept_text
        "accept_text(''Authorization'' \<mapsto> ''Bearer abc'')" "[]" "''Accept''"]
    by simp
  have w2: "(accept_text(''Authorization'' \<mapsto> ''Bearer abc'')) ''X-Other'' = accept_text ''X-Other''"
    using t a1
      applyAuth_changes_one_key [of token_abc accept_text
        "accept_text(''Authorization'' \<mapsto> ''Bearer abc'')" "[]" "''X-Other''"]
    by simp
  have w3: "(accept_text(''Authorization'' \<mapsto> ''Basic dTpw'')) ''Accept'' = accept_text ''Accept''"
    using t a2
      applyAuth_changes_one_key [of basic_up accept_text
        "accept_text(''Authorization'' \<mapsto> ''Basic dTpw'')" "[]" "''Accept''"]
    by simp
  have w4: "(accept_text(''X-Api-Key'' \<mapsto> ''s3cret'')) ''Accept'' = accept_text ''Accept''"
    using t f a3
      applyAuth_changes_one_key [of "apikey_auth header_key" accept_text
        "accept_text(''X-Api-Key'' \<mapsto> ''s3cret'')" "[]" "''Accept''" header_key "''X-Api-Key''"]
    by simp
  show ?thesis
    by (intro conjI) (simp_all only: t f a1 a2 a3 w1 w2 w3 w4)
qed

end
